theory Spec2Isabelle
  imports Complex_Main
begin

section \<open>Python values\<close>

text \<open>
  The analytics module (\<^verbatim>\<open>analytics.py\<close>) receives the listings as parsed JSON: a list
  of dictionaries whose values are \<^verbatim>\<open>None\<close>, integers, strings, lists or further
  dictionaries. The model keeps that dynamic typing: one datatype of values, with a
  dictionary as an association list from its string keys (a key has one entry in a
  Python dictionary; the lookup below reads the first entry of a key). Booleans and
  floats are left out of the universe: no field the analytics reads carries one in the
  listings schema.
\<close>

datatype pyval =
    PNone
  | PInt int
  | PStr string
  | PList "pyval list"
  | PDict "(string \<times> pyval) list"

type_synonym pydict = "(string \<times> pyval) list"

type_synonym listing = pydict

text \<open>
  An exception raised by the Python code. Every place where the interpreter raises
  (an attribute missing on a value of the wrong type, an unhashable dictionary key,
  arithmetic on a non-number) is a branch of the model that returns \<open>Inl Raised\<close>;
  the kind of the exception is not distinguished.
\<close>

datatype exn = Raised

text \<open>Truthiness, as \<^verbatim>\<open>if x:\<close> tests it.\<close>

fun truthy :: "pyval \<Rightarrow> bool" where
  "truthy PNone = False"
| "truthy (PInt n) = (n \<noteq> 0)"
| "truthy (PStr s) = (s \<noteq> [])"
| "truthy (PList xs) = (xs \<noteq> [])"
| "truthy (PDict kvs) = (kvs \<noteq> [])"

text \<open>\<^verbatim>\<open>isinstance(x, dict)\<close> and \<^verbatim>\<open>isinstance(x, str)\<close>.\<close>

fun isinstance_dict :: "pyval \<Rightarrow> bool" where
  "isinstance_dict (PDict kvs) = True"
| "isinstance_dict x = False"

fun isinstance_str :: "pyval \<Rightarrow> bool" where
  "isinstance_str (PStr s) = True"
| "isinstance_str x = False"

text \<open>The entries of a value already known to be a dictionary.\<close>

fun dict_items :: "pyval \<Rightarrow> pydict" where
  "dict_items (PDict kvs) = kvs"
| "dict_items x = []"

text \<open>Lists and dictionaries cannot be dictionary keys: hashing them raises.\<close>

fun hashable :: "pyval \<Rightarrow> bool" where
  "hashable (PList xs) = False"
| "hashable (PDict kvs) = False"
| "hashable x = True"

text \<open>\<^verbatim>\<open>d.get(key, default)\<close>; \<^verbatim>\<open>d.get(key)\<close> is the call with default \<open>PNone\<close>.\<close>

definition dict_get :: "pydict \<Rightarrow> string \<Rightarrow> pyval \<Rightarrow> pyval" where
  "dict_get d key dflt = (case map_of d key of None \<Rightarrow> dflt | Some x \<Rightarrow> x)"

text \<open>
  \<^verbatim>\<open>m.get(key, default)\<close> on one of the module's literal tables, whose keys and
  values are strings. The key is a value of the listing: hashing it raises when it is a
  list or a dictionary, and a key that is not a string is found in no table.
\<close>

definition table_get :: "(string \<times> string) list \<Rightarrow> pyval \<Rightarrow> pyval \<Rightarrow> exn + pyval" where
  "table_get m key dflt =
     (if \<not> hashable key then Inl Raised
      else case key of
             PStr s \<Rightarrow> (case map_of m s of None \<Rightarrow> Inr dflt | Some l \<Rightarrow> Inr (PStr l))
           | _ \<Rightarrow> Inr dflt)"

text \<open>
  \<^verbatim>\<open>for x in xs: body\<close>, the loop's mutable locals threaded as a state: the loop
  stops at the first iteration that raises.
\<close>

fun for_each :: "('s \<Rightarrow> 'a \<Rightarrow> exn + 's) \<Rightarrow> 's \<Rightarrow> 'a list \<Rightarrow> exn + 's" where
  "for_each body s [] = Inr s"
| "for_each body s (x # xs) =
     (case body s x of Inl e \<Rightarrow> Inl e | Inr s' \<Rightarrow> for_each body s' xs)"

section \<open>The fixed labels\<close>

text \<open>
  The module's labels and messages are Russian text. A Python string is modelled by
  the bytes of its UTF-8 encoding: equality, emptiness and the substring test agree with
  Python's on code points. Each label is named here once; the comment gives it in Latin
  transliteration.
\<close>

text \<open>The label \<^verbatim>\<open>Vakansii ne naideny (no vacancies found)\<close>, as its UTF-8 bytes.\<close>

definition msg_no_vacancies :: string where
  "msg_no_vacancies = [CHR 0xD0, CHR 0x92, CHR 0xD0, CHR 0xB0, CHR 0xD0, CHR 0xBA, CHR 0xD0,
      CHR 0xB0, CHR 0xD0, CHR 0xBD, CHR 0xD1, CHR 0x81, CHR 0xD0, CHR 0xB8, CHR 0xD0,
      CHR 0xB8] @ '' '' @ [CHR 0xD0, CHR 0xBD, CHR 0xD0, CHR 0xB5] @ '' '' @ [CHR 0xD0,
      CHR 0xBD, CHR 0xD0, CHR 0xB0, CHR 0xD0, CHR 0xB9, CHR 0xD0, CHR 0xB4, CHR 0xD0,
      CHR 0xB5, CHR 0xD0, CHR 0xBD, CHR 0xD1, CHR 0x8B]"

text \<open>The label \<^verbatim>\<open>Zarplaty ne ukazany (no salaries stated)\<close>, as its UTF-8 bytes.\<close>

definition msg_no_salaries :: string where
  "msg_no_salaries = [CHR 0xD0, CHR 0x97, CHR 0xD0, CHR 0xB0, CHR 0xD1, CHR 0x80, CHR 0xD0,
      CHR 0xBF, CHR 0xD0, CHR 0xBB, CHR 0xD0, CHR 0xB0, CHR 0xD1, CHR 0x82, CHR 0xD1,
      CHR 0x8B] @ '' '' @ [CHR 0xD0, CHR 0xBD, CHR 0xD0, CHR 0xB5] @ '' '' @ [CHR 0xD1,
      CHR 0x83, CHR 0xD0, CHR 0xBA, CHR 0xD0, CHR 0xB0, CHR 0xD0, CHR 0xB7, CHR 0xD0,
      CHR 0xB0, CHR 0xD0, CHR 0xBD, CHR 0xD1, CHR 0x8B]"

text \<open>The label \<^verbatim>\<open>Bez opyta (no experience)\<close>, as its UTF-8 bytes.\<close>

definition tier_none :: string where
  "tier_none = [CHR 0xD0, CHR 0x91, CHR 0xD0, CHR 0xB5, CHR 0xD0,
      CHR 0xB7] @ '' '' @ [CHR 0xD0, CHR 0xBE, CHR 0xD0, CHR 0xBF, CHR 0xD1, CHR 0x8B,
      CHR 0xD1, CHR 0x82, CHR 0xD0, CHR 0xB0]"

text \<open>The label \<^verbatim>\<open>1-3 goda\<close>, as its UTF-8 bytes.\<close>

definition tier_1_3 :: string where
  "tier_1_3 = ''1-3 '' @ [CHR 0xD0, CHR 0xB3, CHR 0xD0, CHR 0xBE, CHR 0xD0, CHR 0xB4,
      CHR 0xD0, CHR 0xB0]"

text \<open>The label \<^verbatim>\<open>3-6 let\<close>, as its UTF-8 bytes.\<close>

definition tier_3_6 :: string where
  "tier_3_6 = ''3-6 '' @ [CHR 0xD0, CHR 0xBB, CHR 0xD0, CHR 0xB5, CHR 0xD1, CHR 0x82]"

text \<open>The label \<^verbatim>\<open>6+ let\<close>, as its UTF-8 bytes.\<close>

definition tier_6_plus :: string where
  "tier_6_plus = ''6+ '' @ [CHR 0xD0, CHR 0xBB, CHR 0xD0, CHR 0xB5, CHR 0xD1, CHR 0x82]"

text \<open>The label \<^verbatim>\<open>Ne ukazano (not specified)\<close>, as its UTF-8 bytes.\<close>

definition unspecified :: string where
  "unspecified = [CHR 0xD0, CHR 0x9D, CHR 0xD0, CHR 0xB5] @ '' '' @ [CHR 0xD1, CHR 0x83,
      CHR 0xD0, CHR 0xBA, CHR 0xD0, CHR 0xB0, CHR 0xD0, CHR 0xB7, CHR 0xD0, CHR 0xB0,
      CHR 0xD0, CHR 0xBD, CHR 0xD0, CHR 0xBE]"

text \<open>The label \<^verbatim>\<open>do 100k (below 100k)\<close>, as its UTF-8 bytes.\<close>

definition bucket_lt_100k :: string where
  "bucket_lt_100k = [CHR 0xD0, CHR 0xB4, CHR 0xD0, CHR 0xBE] @ '' 100'' @ [CHR 0xD0,
      CHR 0xBA]"

text \<open>The label \<^verbatim>\<open>100-150k\<close>, as its UTF-8 bytes.\<close>

definition bucket_100_150k :: string where
  "bucket_100_150k = ''100-150'' @ [CHR 0xD0, CHR 0xBA]"

text \<open>The label \<^verbatim>\<open>150-200k\<close>, as its UTF-8 bytes.\<close>

definition bucket_150_200k :: string where
  "bucket_150_200k = ''150-200'' @ [CHR 0xD0, CHR 0xBA]"

text \<open>The label \<^verbatim>\<open>200-250k\<close>, as its UTF-8 bytes.\<close>

definition bucket_200_250k :: string where
  "bucket_200_250k = ''200-250'' @ [CHR 0xD0, CHR 0xBA]"

text \<open>The label \<^verbatim>\<open>250-300k\<close>, as its UTF-8 bytes.\<close>

definition bucket_250_300k :: string where
  "bucket_250_300k = ''250-300'' @ [CHR 0xD0, CHR 0xBA]"

text \<open>The label \<^verbatim>\<open>300-400k\<close>, as its UTF-8 bytes.\<close>

definition bucket_300_400k :: string where
  "bucket_300_400k = ''300-400'' @ [CHR 0xD0, CHR 0xBA]"

text \<open>The label \<^verbatim>\<open>400k+\<close>, as its UTF-8 bytes.\<close>

definition bucket_400k_plus :: string where
  "bucket_400k_plus = ''400'' @ [CHR 0xD0, CHR 0xBA] @ ''+''"

text \<open>The label \<^verbatim>\<open>Polnaya zanyatost (full employment)\<close>, as its UTF-8 bytes.\<close>

definition emp_full :: string where
  "emp_full = [CHR 0xD0, CHR 0x9F, CHR 0xD0, CHR 0xBE, CHR 0xD0, CHR 0xBB, CHR 0xD0,
      CHR 0xBD, CHR 0xD0, CHR 0xB0, CHR 0xD1, CHR 0x8F] @ '' '' @ [CHR 0xD0, CHR 0xB7,
      CHR 0xD0, CHR 0xB0, CHR 0xD0, CHR 0xBD, CHR 0xD1, CHR 0x8F, CHR 0xD1, CHR 0x82,
      CHR 0xD0, CHR 0xBE, CHR 0xD1, CHR 0x81, CHR 0xD1, CHR 0x82, CHR 0xD1, CHR 0x8C]"

text \<open>The label \<^verbatim>\<open>Chastichnaya zanyatost (part-time employment)\<close>, as its UTF-8 bytes.\<close>

definition emp_part :: string where
  "emp_part = [CHR 0xD0, CHR 0xA7, CHR 0xD0, CHR 0xB0, CHR 0xD1, CHR 0x81, CHR 0xD1,
      CHR 0x82, CHR 0xD0, CHR 0xB8, CHR 0xD1, CHR 0x87, CHR 0xD0, CHR 0xBD, CHR 0xD0,
      CHR 0xB0, CHR 0xD1, CHR 0x8F] @ '' '' @ [CHR 0xD0, CHR 0xB7, CHR 0xD0, CHR 0xB0,
      CHR 0xD0, CHR 0xBD, CHR 0xD1, CHR 0x8F, CHR 0xD1, CHR 0x82, CHR 0xD0, CHR 0xBE,
      CHR 0xD1, CHR 0x81, CHR 0xD1, CHR 0x82, CHR 0xD1, CHR 0x8C]"

text \<open>The label \<^verbatim>\<open>Proektnaya rabota (project work)\<close>, as its UTF-8 bytes.\<close>

definition emp_project :: string where
  "emp_project = [CHR 0xD0, CHR 0x9F, CHR 0xD1, CHR 0x80, CHR 0xD0, CHR 0xBE, CHR 0xD0,
      CHR 0xB5, CHR 0xD0, CHR 0xBA, CHR 0xD1, CHR 0x82, CHR 0xD0, CHR 0xBD, CHR 0xD0,
      CHR 0xB0, CHR 0xD1, CHR 0x8F] @ '' '' @ [CHR 0xD1, CHR 0x80, CHR 0xD0, CHR 0xB0,
      CHR 0xD0, CHR 0xB1, CHR 0xD0, CHR 0xBE, CHR 0xD1, CHR 0x82, CHR 0xD0, CHR 0xB0]"

text \<open>The label \<^verbatim>\<open>Volontyorstvo (volunteering)\<close>, as its UTF-8 bytes.\<close>

definition emp_volunteer :: string where
  "emp_volunteer = [CHR 0xD0, CHR 0x92, CHR 0xD0, CHR 0xBE, CHR 0xD0, CHR 0xBB, CHR 0xD0,
      CHR 0xBE, CHR 0xD0, CHR 0xBD, CHR 0xD1, CHR 0x82, CHR 0xD1, CHR 0x91, CHR 0xD1,
      CHR 0x80, CHR 0xD1, CHR 0x81, CHR 0xD1, CHR 0x82, CHR 0xD0, CHR 0xB2, CHR 0xD0,
      CHR 0xBE]"

text \<open>The label \<^verbatim>\<open>Stazhirovka (internship)\<close>, as its UTF-8 bytes.\<close>

definition emp_probation :: string where
  "emp_probation = [CHR 0xD0, CHR 0xA1, CHR 0xD1, CHR 0x82, CHR 0xD0, CHR 0xB0, CHR 0xD0,
      CHR 0xB6, CHR 0xD0, CHR 0xB8, CHR 0xD1, CHR 0x80, CHR 0xD0, CHR 0xBE, CHR 0xD0,
      CHR 0xB2, CHR 0xD0, CHR 0xBA, CHR 0xD0, CHR 0xB0]"

text \<open>The label \<^verbatim>\<open>angliyskiy (the keyword for English, in Russian)\<close>, as its UTF-8 bytes.\<close>

definition kw_angliyskiy :: string where
  "kw_angliyskiy = [CHR 0xD0, CHR 0xB0, CHR 0xD0, CHR 0xBD, CHR 0xD0, CHR 0xB3, CHR 0xD0,
      CHR 0xBB, CHR 0xD0, CHR 0xB8, CHR 0xD0, CHR 0xB9, CHR 0xD1, CHR 0x81, CHR 0xD0,
      CHR 0xBA, CHR 0xD0, CHR 0xB8, CHR 0xD0, CHR 0xB9]"

section \<open>collections.Counter\<close>

text \<open>
  A \<^verbatim>\<open>Counter\<close> is a dictionary, and a Python dictionary keeps its keys in the order
  of their first insertion: an association list in that order.
  \<^verbatim>\<open>c[key] += 1\<close> adds one to the count of a key already there and appends a new key
  with count one.
\<close>

type_synonym counter = "(pyval \<times> nat) list"

fun counter_incr :: "counter \<Rightarrow> pyval \<Rightarrow> counter" where
  "counter_incr [] key = [(key, 1)]"
| "counter_incr ((k, n) # rest) key =
     (if k = key then (k, n + 1) # rest else (k, n) # counter_incr rest key)"

text \<open>\<^verbatim>\<open>c[key] += 1\<close> on a value of the listing: an unhashable key raises TypeError.\<close>

definition counter_add :: "counter \<Rightarrow> pyval \<Rightarrow> exn + counter" where
  "counter_add c key = (if hashable key then Inr (counter_incr c key) else Inl Raised)"

text \<open>
  \<^verbatim>\<open>c.most_common()\<close> is \<^verbatim>\<open>sorted(c.items(), key=itemgetter(1), reverse=True)\<close>:
  Python's sort is stable, also under \<^verbatim>\<open>reverse=True\<close>, so entries of equal count keep
  the order of the dictionary. \<^verbatim>\<open>c.most_common(n)\<close> is \<^verbatim>\<open>heapq.nlargest(n, ...)\<close>,
  which the library documents as the first \<open>n\<close> entries of the same sorted list.
  The stable sort is the library's insertion sort on the negated count.
\<close>

definition most_common :: "counter \<Rightarrow> counter" where
  "most_common c = sort_key (\<lambda>kc. - int (snd kc)) c"

definition most_common_n :: "nat \<Rightarrow> counter \<Rightarrow> counter" where
  "most_common_n n c = take n (most_common c)"

section \<open>Salary analysis\<close>

subsection \<open>Salary bounds\<close>

text \<open>
  \<^verbatim>\<open>salary.get("from")\<close> and \<^verbatim>\<open>salary.get("to")\<close> are integers or \<^verbatim>\<open>None\<close> in the
  listings schema. The code only ever tests a bound for truthiness, multiplies it by a
  rate, adds two bounds and appends them to the samples, whose minimum, maximum and
  mean are taken at the end: a truthy bound that is not a number makes one of these
  raise (the addition, the division, \<^verbatim>\<open>int(min(...))\<close> or \<^verbatim>\<open>np.mean\<close>), and a falsy
  one (\<^verbatim>\<open>None\<close>, an empty string, list or dictionary) is skipped by every test. So a
  bound is read as an optional integer, and the exception is raised where it is read.
\<close>

definition num_bound :: "pyval \<Rightarrow> exn + int option" where
  "num_bound x =
     (case x of
        PInt n \<Rightarrow> Inr (Some n)
      | _ \<Rightarrow> if truthy x then Inl Raised else Inr None)"

text \<open>\<^verbatim>\<open>if from_val:\<close> on a bound: \<^verbatim>\<open>None\<close> and \<open>0\<close> are falsy.\<close>

definition truthy_bound :: "int option \<Rightarrow> bool" where
  "truthy_bound x = (case x of None \<Rightarrow> False | Some n \<Rightarrow> n \<noteq> 0)"

text \<open>\<^verbatim>\<open>from_val * rate if from_val else None\<close>.\<close>

definition times_rate :: "int \<Rightarrow> int option \<Rightarrow> int option" where
  "times_rate rate x = (case x of None \<Rightarrow> None | Some n \<Rightarrow> if n \<noteq> 0 then Some (n * rate) else None)"

text \<open>
  The conversion of one bound, written twice in the source (for \<^verbatim>\<open>from_val\<close> and for
  \<^verbatim>\<open>to_val\<close>) in each of the two salary functions:
  \<^verbatim>\<open>
  if currency == "USD":
      rate = 90
      from_val = from_val * rate if from_val else None
      to_val = to_val * rate if to_val else None
  elif currency == "EUR":
      rate = 100
      from_val = from_val * rate if from_val else None
      to_val = to_val * rate if to_val else None
  \<close>
\<close>

definition convert :: "pyval \<Rightarrow> int option \<Rightarrow> int option" where
  "convert currency x =
     (if currency = PStr ''USD'' then times_rate 90 x
      else if currency = PStr ''EUR'' then times_rate 100 x
      else x)"

text \<open>
  The representative value of a range, also written once in each salary function:
  \<^verbatim>\<open>
  if from_val and to_val:
      avg = (from_val + to_val) / 2
  elif from_val:
      avg = from_val
  elif to_val:
      avg = to_val
  else:
      continue          # analyze_salaries appends nothing
  \<close>
  The division is Python's true division, so the value is a float; it is modelled by
  the exact rational, which the float equals while the sum of the two bounds stays below
  \<open>2\<^sup>5\<^sup>3\<close> in absolute value.
\<close>

definition range_value :: "int option \<Rightarrow> int option \<Rightarrow> rat option" where
  "range_value from_val to_val =
     (if truthy_bound from_val \<and> truthy_bound to_val
        then Some ((of_int (the from_val) + of_int (the to_val)) / 2)
      else if truthy_bound from_val then Some (of_int (the from_val))
      else if truthy_bound to_val then Some (of_int (the to_val))
      else None)"

text \<open>\<^verbatim>\<open>if x: xs.append(x)\<close> on a bound, and the append of an optional value.\<close>

definition append_bound :: "int list \<Rightarrow> int option \<Rightarrow> int list" where
  "append_bound xs x = (if truthy_bound x then xs @ [the x] else xs)"

definition append_value :: "rat list \<Rightarrow> rat option \<Rightarrow> rat list" where
  "append_value xs x = (case x of None \<Rightarrow> xs | Some s \<Rightarrow> xs @ [s])"

subsection \<open>Statistics of a sample\<close>

text \<open>\<^verbatim>\<open>int(x)\<close> on a float truncates towards zero.\<close>

definition py_int :: "rat \<Rightarrow> int" where
  "py_int x = (if 0 \<le> x then \<lfloor>x\<rfloor> else \<lceil>x\<rceil>)"

text \<open>\<^verbatim>\<open>min(xs)\<close> and \<^verbatim>\<open>max(xs)\<close> on a sample that the caller has found non-empty.\<close>

fun py_min :: "rat list \<Rightarrow> rat" where
  "py_min [] = 0"
| "py_min [x] = x"
| "py_min (x # y # ys) = min x (py_min (y # ys))"

fun py_max :: "rat list \<Rightarrow> rat" where
  "py_max [] = 0"
| "py_max [x] = x"
| "py_max (x # y # ys) = max x (py_max (y # ys))"

text \<open>
  \<^verbatim>\<open>np.mean\<close> and \<^verbatim>\<open>np.median\<close>, computed exactly. numpy computes them in IEEE
  doubles; the two agree after \<^verbatim>\<open>int(...)\<close> while the sum of the sample stays below
  \<open>2\<^sup>5\<^sup>2\<close>. No property proved below depends on these two.
\<close>

definition np_mean :: "rat list \<Rightarrow> rat" where
  "np_mean xs = sum_list xs / of_nat (length xs)"

definition np_median :: "rat list \<Rightarrow> rat" where
  "np_median xs =
     (let ys = sort xs; n = length ys in
      if even n then (ys ! (n div 2 - 1) + ys ! (n div 2)) / 2 else ys ! (n div 2))"

subsection \<open>get_salary_distribution\<close>

text \<open>
  \<^verbatim>\<open>
  def get_salary_distribution(salaries):
      dist = {"<below 100k>": 0, "100-150k": 0, "150-200k": 0, "200-250k": 0,
              "250-300k": 0, "300-400k": 0, "400k+": 0}
      for s in salaries:
          if s < 100000:   dist["<below 100k>"] += 1
          elif s < 150000: dist["100-150k"] += 1
          elif s < 200000: dist["150-200k"] += 1
          elif s < 250000: dist["200-250k"] += 1
          elif s < 300000: dist["250-300k"] += 1
          elif s < 400000: dist["300-400k"] += 1
          else:            dist["400k+"] += 1
      return dist
  \<close>
  The dictionary is an association list in the order of its literal; \<^verbatim>\<open>dist[k] += 1\<close>
  is on a key that the literal holds.
\<close>

type_synonym distribution = "(string \<times> nat) list"

definition dist_init :: distribution where
  "dist_init =
     [(bucket_lt_100k, 0), (bucket_100_150k, 0), (bucket_150_200k, 0), (bucket_200_250k, 0),
      (bucket_250_300k, 0), (bucket_300_400k, 0), (bucket_400k_plus, 0)]"

fun dist_incr :: "distribution \<Rightarrow> string \<Rightarrow> distribution" where
  "dist_incr [] key = []"
| "dist_incr ((k, n) # rest) key =
     (if k = key then (k, n + 1) # rest else (k, n) # dist_incr rest key)"

definition distribution_body :: "distribution \<Rightarrow> rat \<Rightarrow> distribution" where
  "distribution_body d s =
     (if s < 100000 then dist_incr d bucket_lt_100k
      else if s < 150000 then dist_incr d bucket_100_150k
      else if s < 200000 then dist_incr d bucket_150_200k
      else if s < 250000 then dist_incr d bucket_200_250k
      else if s < 300000 then dist_incr d bucket_250_300k
      else if s < 400000 then dist_incr d bucket_300_400k
      else dist_incr d bucket_400k_plus)"

definition get_salary_distribution :: "rat list \<Rightarrow> distribution" where
  "get_salary_distribution salaries = fold (\<lambda>s d. distribution_body d s) salaries dist_init"

subsection \<open>analyze_salaries\<close>

text \<open>
  \<^verbatim>\<open>
  def analyze_salaries(vacancies):
      salaries = []; salary_from_list = []; salary_to_list = []
      currency_stats = Counter()
      for v in vacancies:
          salary = v.get("salary")
          if salary:
              currency = salary.get("currency", "RUR")
              currency_stats[currency] += 1
              from_val = salary.get("from")
              to_val = salary.get("to")
              <conversion of from_val and to_val, see convert>
              if from_val: salary_from_list.append(from_val)
              if to_val:   salary_to_list.append(to_val)
              <representative value, see range_value; appended to salaries>
      if not salaries:
          return {"available": False, "message": <msg_no_salaries>}
      return {"available": True, "count": len(salaries),
              "min": int(min(salaries)), "max": int(max(salaries)),
              "avg": int(np.mean(salaries)), "median": int(np.median(salaries)),
              "from_avg": int(np.mean(salary_from_list)) if salary_from_list else None,
              "to_avg": int(np.mean(salary_to_list)) if salary_to_list else None,
              "distribution": get_salary_distribution(salaries),
              "currencies": dict(currency_stats.most_common(5))}
  \<close>
  The test is \<^verbatim>\<open>if salary:\<close> alone, so a truthy salary that is not a dictionary
  reaches \<^verbatim>\<open>salary.get\<close> and raises AttributeError.
\<close>

record salary_acc =
  salaries :: "rat list"
  salary_from_list :: "int list"
  salary_to_list :: "int list"
  currency_stats :: counter

definition salary_acc_init :: salary_acc where
  "salary_acc_init =
     \<lparr>salaries = [], salary_from_list = [], salary_to_list = [], currency_stats = []\<rparr>"

definition analyze_salaries_body :: "salary_acc \<Rightarrow> listing \<Rightarrow> exn + salary_acc" where
  "analyze_salaries_body acc v =
     (let salary = dict_get v ''salary'' PNone in
      if truthy salary then
        (if \<not> isinstance_dict salary then Inl Raised
         else
           (let currency = dict_get (dict_items salary) ''currency'' (PStr ''RUR'') in
            case counter_add (currency_stats acc) currency of
              Inl e \<Rightarrow> Inl e
            | Inr stats \<Rightarrow>
              (case num_bound (dict_get (dict_items salary) ''from'' PNone) of
                 Inl e \<Rightarrow> Inl e
               | Inr from_raw \<Rightarrow>
                  (case num_bound (dict_get (dict_items salary) ''to'' PNone) of
                     Inl e \<Rightarrow> Inl e
                   | Inr to_raw \<Rightarrow>
                      (let from_val = convert currency from_raw;
                           to_val = convert currency to_raw
                       in Inr \<lparr>salaries = append_value (salaries acc) (range_value from_val to_val),
                               salary_from_list = append_bound (salary_from_list acc) from_val,
                               salary_to_list = append_bound (salary_to_list acc) to_val,
                               currency_stats = stats\<rparr>)))))
      else Inr acc)"

record salary_stats =
  count_stat :: nat
  min_stat :: int
  max_stat :: int
  avg_stat :: int
  median_stat :: int
  from_avg :: "int option"
  to_avg :: "int option"
  distribution :: distribution
  currencies :: counter

text \<open>
  The result dictionary: \<open>Unavailable\<close> is \<^verbatim>\<open>{"available": False, "message": ...}\<close>
  and \<open>Available\<close> the dictionary with \<^verbatim>\<open>"available": True\<close>.
\<close>

datatype salary_result = Unavailable string | Available salary_stats

definition mean_of_bounds :: "int list \<Rightarrow> int option" where
  "mean_of_bounds xs = (if xs = [] then None else Some (py_int (np_mean (map of_int xs))))"

definition salary_summary :: "salary_acc \<Rightarrow> salary_result" where
  "salary_summary acc =
     (if salaries acc = [] then Unavailable msg_no_salaries
      else Available
        \<lparr>count_stat = length (salaries acc),
         min_stat = py_int (py_min (salaries acc)),
         max_stat = py_int (py_max (salaries acc)),
         avg_stat = py_int (np_mean (salaries acc)),
         median_stat = py_int (np_median (salaries acc)),
         from_avg = mean_of_bounds (salary_from_list acc),
         to_avg = mean_of_bounds (salary_to_list acc),
         distribution = get_salary_distribution (salaries acc),
         currencies = most_common_n 5 (currency_stats acc)\<rparr>)"

definition analyze_salaries :: "listing list \<Rightarrow> exn + salary_result" where
  "analyze_salaries vacancies =
     (case for_each analyze_salaries_body salary_acc_init vacancies of
        Inl e \<Rightarrow> Inl e
      | Inr acc \<Rightarrow> Inr (salary_summary acc))"

subsection \<open>analyze_salary_by_experience\<close>

text \<open>
  The experience code of a listing, computed by the same lines in
  \<^verbatim>\<open>analyze_salary_by_experience\<close> and in \<^verbatim>\<open>analyze_experience\<close>:
  \<^verbatim>\<open>
  exp_data = v.get("experience")
  if exp_data and isinstance(exp_data, dict):
      exp_id = exp_data.get("id", <unspecified>)
  elif exp_data and isinstance(exp_data, str):
      exp_id = exp_data
  else:
      exp_id = <unspecified>
  \<close>
\<close>

definition experience_id :: "listing \<Rightarrow> pyval" where
  "experience_id v =
     (let exp_data = dict_get v ''experience'' PNone in
      if truthy exp_data \<and> isinstance_dict exp_data
        then dict_get (dict_items exp_data) ''id'' (PStr unspecified)
      else if truthy exp_data \<and> isinstance_str exp_data then exp_data
      else PStr unspecified)"

definition exp_map :: "(string \<times> string) list" where
  "exp_map =
     [(''noExperience'', tier_none), (''between1And3'', tier_1_3),
      (''between3And6'', tier_3_6), (''moreThan6'', tier_6_plus)]"

text \<open>\<^verbatim>\<open>exp_name = exp_map.get(exp_id, <unspecified>)\<close>: the tier of the salary grouping.\<close>

definition experience_tier :: "listing \<Rightarrow> exn + pyval" where
  "experience_tier v = table_get exp_map (experience_id v) (PStr unspecified)"

text \<open>
  The groups \<^verbatim>\<open>salary_by_exp\<close>: a dictionary from the five tier labels to the list of
  the tier's representative values. \<^verbatim>\<open>salary_by_exp[exp_name].append(avg)\<close> raises
  KeyError on a key that is not one of the five.
\<close>

type_synonym groups = "(pyval \<times> rat list) list"

definition salary_by_exp_init :: groups where
  "salary_by_exp_init =
     [(PStr tier_none, []), (PStr tier_1_3, []), (PStr tier_3_6, []),
      (PStr tier_6_plus, []), (PStr unspecified, [])]"

fun group_append :: "groups \<Rightarrow> pyval \<Rightarrow> rat \<Rightarrow> exn + groups" where
  "group_append [] key x = Inl Raised"
| "group_append ((k, xs) # rest) key x =
     (if k = key then Inr ((k, xs @ [x]) # rest)
      else case group_append rest key x of
             Inl e \<Rightarrow> Inl e
           | Inr rest' \<Rightarrow> Inr ((k, xs) # rest'))"

text \<open>
  \<^verbatim>\<open>
  for v in vacancies:
      <exp_id, exp_name as above>
      salary = v.get("salary")
      if salary and isinstance(salary, dict):
          from_val = salary.get("from")
          to_val = salary.get("to")
          currency = salary.get("currency", "RUR")
          <conversion, see convert>
          <representative value avg, see range_value; continue when there is none>
          salary_by_exp[exp_name].append(avg)
  \<close>
\<close>

definition salary_by_experience_body :: "groups \<Rightarrow> listing \<Rightarrow> exn + groups" where
  "salary_by_experience_body salary_by_exp v =
     (case experience_tier v of
        Inl e \<Rightarrow> Inl e
      | Inr exp_name \<Rightarrow>
         let salary = dict_get v ''salary'' PNone in
         if truthy salary \<and> isinstance_dict salary then
           (case num_bound (dict_get (dict_items salary) ''from'' PNone) of
              Inl e \<Rightarrow> Inl e
            | Inr from_raw \<Rightarrow>
               (case num_bound (dict_get (dict_items salary) ''to'' PNone) of
                  Inl e \<Rightarrow> Inl e
                | Inr to_raw \<Rightarrow>
                   (let currency = dict_get (dict_items salary) ''currency'' (PStr ''RUR'');
                        from_val = convert currency from_raw;
                        to_val = convert currency to_raw
                    in (case range_value from_val to_val of
                          None \<Rightarrow> Inr salary_by_exp
                        | Some avg \<Rightarrow> group_append salary_by_exp exp_name avg))))
         else Inr salary_by_exp)"

text \<open>
  \<^verbatim>\<open>
  result = {}
  for exp_name, salaries in salary_by_exp.items():
      if salaries:
          result[exp_name] = {"count": len(salaries), "min": int(min(salaries)),
                              "max": int(max(salaries)), "avg": int(np.mean(salaries)),
                              "median": int(np.median(salaries))}
  return result
  \<close>
\<close>

record tier_stats =
  tier_count :: nat
  tier_min :: int
  tier_max :: int
  tier_avg :: int
  tier_median :: int

definition tier_summary :: "rat list \<Rightarrow> tier_stats" where
  "tier_summary xs =
     \<lparr>tier_count = length xs, tier_min = py_int (py_min xs), tier_max = py_int (py_max xs),
      tier_avg = py_int (np_mean xs), tier_median = py_int (np_median xs)\<rparr>"

definition salary_by_experience_result :: "groups \<Rightarrow> (pyval \<times> tier_stats) list" where
  "salary_by_experience_result salary_by_exp =
     map (\<lambda>(exp_name, xs). (exp_name, tier_summary xs))
       (filter (\<lambda>(exp_name, xs). xs \<noteq> []) salary_by_exp)"

definition analyze_salary_by_experience :: "listing list \<Rightarrow> exn + (pyval \<times> tier_stats) list" where
  "analyze_salary_by_experience vacancies =
     (case for_each salary_by_experience_body salary_by_exp_init vacancies of
        Inl e \<Rightarrow> Inl e
      | Inr salary_by_exp \<Rightarrow> Inr (salary_by_experience_result salary_by_exp))"

section \<open>Categorical counts\<close>

subsection \<open>analyze_companies\<close>

text \<open>
  \<^verbatim>\<open>
  companies = Counter()
  for v in vacancies:
      employer = v.get("employer")
      if employer and isinstance(employer, dict):
          name = employer.get("name", <unspecified>)
      elif employer and isinstance(employer, str):
          name = employer
      else:
          name = <unspecified>
      companies[name] += 1
  return {"unique": len(companies), "top_20": companies.most_common(20)}
  \<close>
\<close>

definition employer_name :: "listing \<Rightarrow> pyval" where
  "employer_name v =
     (let employer = dict_get v ''employer'' PNone in
      if truthy employer \<and> isinstance_dict employer
        then dict_get (dict_items employer) ''name'' (PStr unspecified)
      else if truthy employer \<and> isinstance_str employer then employer
      else PStr unspecified)"

definition analyze_companies_body :: "counter \<Rightarrow> listing \<Rightarrow> exn + counter" where
  "analyze_companies_body companies v = counter_add companies (employer_name v)"

record companies_stats =
  unique :: nat
  top_20 :: counter

definition analyze_companies :: "listing list \<Rightarrow> exn + companies_stats" where
  "analyze_companies vacancies =
     (case for_each analyze_companies_body [] vacancies of
        Inl e \<Rightarrow> Inl e
      | Inr companies \<Rightarrow>
          Inr \<lparr>unique = length companies, top_20 = most_common_n 20 companies\<rparr>)"

subsection \<open>analyze_experience\<close>

text \<open>
  \<^verbatim>\<open>
  experience = Counter()
  for v in vacancies:
      <exp as exp_id above>
      exp_name = exp_map.get(exp, exp)
      experience[exp_name] += 1
  return dict(experience.most_common())
  \<close>
  The default of the table lookup is the code itself here, not the unspecified label.
\<close>

definition experience_name :: "listing \<Rightarrow> exn + pyval" where
  "experience_name v = table_get exp_map (experience_id v) (experience_id v)"

definition analyze_experience_body :: "counter \<Rightarrow> listing \<Rightarrow> exn + counter" where
  "analyze_experience_body experience v =
     (case experience_name v of
        Inl e \<Rightarrow> Inl e
      | Inr exp_name \<Rightarrow> counter_add experience exp_name)"

definition analyze_experience :: "listing list \<Rightarrow> exn + counter" where
  "analyze_experience vacancies =
     (case for_each analyze_experience_body [] vacancies of
        Inl e \<Rightarrow> Inl e
      | Inr experience \<Rightarrow> Inr (most_common experience))"

subsection \<open>analyze_employment\<close>

text \<open>
  \<^verbatim>\<open>
  employment = Counter()
  for v in vacancies:
      emp = v.get("employment")
      if emp and isinstance(emp, dict):
          emp_name = emp_map.get(emp.get("id"), emp.get("name", <unspecified>))
          employment[emp_name] += 1
      elif emp and isinstance(emp, str):
          emp_name = emp_map.get(emp, emp)
          employment[emp_name] += 1
  return dict(employment.most_common())
  \<close>
  \<open>employment_name\<close> is the label counted for a listing, \<open>None\<close> when neither branch
  is taken and nothing is counted.
\<close>

definition emp_map :: "(string \<times> string) list" where
  "emp_map =
     [(''full'', emp_full), (''part'', emp_part), (''project'', emp_project),
      (''volunteer'', emp_volunteer), (''probation'', emp_probation)]"

definition employment_name :: "listing \<Rightarrow> exn + pyval option" where
  "employment_name v =
     (let emp = dict_get v ''employment'' PNone in
      if truthy emp \<and> isinstance_dict emp then
        (case table_get emp_map (dict_get (dict_items emp) ''id'' PNone)
                (dict_get (dict_items emp) ''name'' (PStr unspecified)) of
           Inl e \<Rightarrow> Inl e
         | Inr emp_name \<Rightarrow> Inr (Some emp_name))
      else if truthy emp \<and> isinstance_str emp then
        (case table_get emp_map emp emp of
           Inl e \<Rightarrow> Inl e
         | Inr emp_name \<Rightarrow> Inr (Some emp_name))
      else Inr None)"

definition analyze_employment_body :: "counter \<Rightarrow> listing \<Rightarrow> exn + counter" where
  "analyze_employment_body employment v =
     (case employment_name v of
        Inl e \<Rightarrow> Inl e
      | Inr None \<Rightarrow> Inr employment
      | Inr (Some emp_name) \<Rightarrow> counter_add employment emp_name)"

definition analyze_employment :: "listing list \<Rightarrow> exn + counter" where
  "analyze_employment vacancies =
     (case for_each analyze_employment_body [] vacancies of
        Inl e \<Rightarrow> Inl e
      | Inr employment \<Rightarrow> Inr (most_common employment))"

subsection \<open>analyze_schedule\<close>

text \<open>
  \<^verbatim>\<open>
  schedule = Counter()
  for v in vacancies:
      sched = v.get("schedule")
      if sched and isinstance(sched, dict):
          name = sched.get("name", <unspecified>)
          schedule[name] += 1
      elif sched and isinstance(sched, str):
          schedule[sched] += 1
  return dict(schedule.most_common())
  \<close>
\<close>

definition schedule_name :: "listing \<Rightarrow> pyval option" where
  "schedule_name v =
     (let sched = dict_get v ''schedule'' PNone in
      if truthy sched \<and> isinstance_dict sched
        then Some (dict_get (dict_items sched) ''name'' (PStr unspecified))
      else if truthy sched \<and> isinstance_str sched then Some sched
      else None)"

definition analyze_schedule_body :: "counter \<Rightarrow> listing \<Rightarrow> exn + counter" where
  "analyze_schedule_body schedule v =
     (case schedule_name v of
        None \<Rightarrow> Inr schedule
      | Some name \<Rightarrow> counter_add schedule name)"

definition analyze_schedule :: "listing list \<Rightarrow> exn + counter" where
  "analyze_schedule vacancies =
     (case for_each analyze_schedule_body [] vacancies of
        Inl e \<Rightarrow> Inl e
      | Inr schedule \<Rightarrow> Inr (most_common schedule))"

section \<open>extract_skills\<close>

text \<open>
  \<^verbatim>\<open>sub in text\<close> on two strings: \<open>sub\<close> occurs in \<open>text\<close> as a contiguous run
  (the empty string occurs in every string).
\<close>

fun starts_with :: "string \<Rightarrow> string \<Rightarrow> bool" where
  "starts_with text [] = True"
| "starts_with [] (c # sub) = False"
| "starts_with (t # text) (c # sub) = (t = c \<and> starts_with text sub)"

fun str_contains :: "string \<Rightarrow> string \<Rightarrow> bool" where
  "str_contains [] sub = (sub = [])"
| "str_contains (t # text) sub = (starts_with (t # text) sub \<or> str_contains text sub)"

text \<open>
  The vocabulary, in the order of the source's literal. Three keywords (mongodb,
  postgresql, redis) stand in it twice: once in the databases line and once more in
  the line that starts with "rest api".
\<close>

definition tech_skills :: "string list" where
  "tech_skills =
     [''python'', ''javascript'', ''typescript'', ''java'', ''c++'', ''c#'', ''go'', ''rust'',
      ''php'', ''ruby'',
      ''react'', ''vue'', ''angular'', ''node.js'', ''django'', ''flask'', ''fastapi'',
      ''spring'', ''laravel'',
      ''sql'', ''postgresql'', ''mysql'', ''mongodb'', ''redis'', ''elasticsearch'', ''kafka'',
      ''rabbitmq'',
      ''docker'', ''kubernetes'', ''aws'', ''azure'', ''gcp'', ''linux'', ''git'', ''ci/cd'',
      ''jenkins'',
      ''machine learning'', ''ml'', ''ai'', ''data science'', ''pytorch'', ''tensorflow'',
      ''pandas'', ''numpy'',
      ''rest api'', ''graphql'', ''microservices'', ''mongodb'', ''postgresql'', ''redis'',
      ''agile'', ''scrum'', ''kanban'', ''jira'', ''confluence'',
      ''english'', kw_angliyskiy, ''b2'', ''c1'', ''ielts'']"

text \<open>
  \<^verbatim>\<open>str.lower\<close> and \<^verbatim>\<open>str.upper\<close> are Python's Unicode case mappings. They are
  parameters \<open>lower\<close> and \<open>upper\<close> of the model: what is proved holds for every
  pair of functions, and \<open>ascii_lower\<close> and \<open>ascii_upper\<close> below are what the two do
  on ASCII text, for running the model on an input.

  \<^verbatim>\<open>(x or "").lower()\<close>: the string itself when \<open>x\<close> is truthy, the empty string
  otherwise; a truthy value that is not a string has no \<^verbatim>\<open>lower\<close> and raises
  AttributeError.
\<close>

definition or_empty_lower :: "(string \<Rightarrow> string) \<Rightarrow> pyval \<Rightarrow> exn + string" where
  "or_empty_lower lower x =
     (if truthy x then (case x of PStr s \<Rightarrow> Inr (lower s) | _ \<Rightarrow> Inl Raised)
      else Inr (lower ''''))"

text \<open>
  \<^verbatim>\<open>
  skill_counter = Counter()
  for v in vacancies:
      snippet = v.get("snippet")
      if snippet and isinstance(snippet, dict):
          requirement = (snippet.get("requirement") or "").lower()
          responsibility = (snippet.get("responsibility") or "").lower()
          text = requirement + " " + responsibility
          for skill in tech_skills:
              if skill.lower() in text:
                  skill_counter[skill.upper()] += 1
  return {"top_20": skill_counter.most_common(20), "total_found": len(skill_counter)}
  \<close>
\<close>

definition snippet_text :: "(string \<Rightarrow> string) \<Rightarrow> pydict \<Rightarrow> exn + string" where
  "snippet_text lower snippet =
     (case or_empty_lower lower (dict_get snippet ''requirement'' PNone) of
        Inl e \<Rightarrow> Inl e
      | Inr requirement \<Rightarrow>
         (case or_empty_lower lower (dict_get snippet ''responsibility'' PNone) of
            Inl e \<Rightarrow> Inl e
          | Inr responsibility \<Rightarrow> Inr (requirement @ '' '' @ responsibility)))"

definition skill_body ::
  "(string \<Rightarrow> string) \<Rightarrow> (string \<Rightarrow> string) \<Rightarrow> string \<Rightarrow> counter \<Rightarrow> string \<Rightarrow> exn + counter" where
  "skill_body lower upper text skill_counter skill =
     (if str_contains text (lower skill) then counter_add skill_counter (PStr (upper skill))
      else Inr skill_counter)"

definition extract_skills_body ::
  "(string \<Rightarrow> string) \<Rightarrow> (string \<Rightarrow> string) \<Rightarrow> counter \<Rightarrow> listing \<Rightarrow> exn + counter" where
  "extract_skills_body lower upper skill_counter v =
     (let snippet = dict_get v ''snippet'' PNone in
      if truthy snippet \<and> isinstance_dict snippet then
        (case snippet_text lower (dict_items snippet) of
           Inl e \<Rightarrow> Inl e
         | Inr text \<Rightarrow> for_each (skill_body lower upper text) skill_counter tech_skills)
      else Inr skill_counter)"

record skills_stats =
  skills_top_20 :: counter
  total_found :: nat

definition extract_skills ::
  "(string \<Rightarrow> string) \<Rightarrow> (string \<Rightarrow> string) \<Rightarrow> listing list \<Rightarrow> exn + skills_stats" where
  "extract_skills lower upper vacancies =
     (case for_each (extract_skills_body lower upper) [] vacancies of
        Inl e \<Rightarrow> Inl e
      | Inr skill_counter \<Rightarrow>
          Inr \<lparr>skills_top_20 = most_common_n 20 skill_counter,
               total_found = length skill_counter\<rparr>)"

text \<open>The case mappings on ASCII letters; every other byte is left as it is.\<close>

definition ascii_lower :: "string \<Rightarrow> string" where
  "ascii_lower s =
     map (\<lambda>c. if (65::nat) \<le> of_char c \<and> of_char c \<le> (90::nat)
               then char_of (of_char c + (32::nat)) else c) s"

definition ascii_upper :: "string \<Rightarrow> string" where
  "ascii_upper s =
     map (\<lambda>c. if (97::nat) \<le> of_char c \<and> of_char c \<le> (122::nat)
               then char_of (of_char c - (32::nat)) else c) s"

section \<open>analyze_vacancies\<close>

text \<open>
  \<^verbatim>\<open>
  def analyze_vacancies(vacancies):
      if not vacancies:
          return {"error": <msg_no_vacancies>}
      df = pd.DataFrame(vacancies)
      stats = {"total": len(vacancies),
               "salary": analyze_salaries(vacancies),
               "salary_by_experience": analyze_salary_by_experience(vacancies),
               "companies": analyze_companies(vacancies),
               "experience": analyze_experience(vacancies),
               "employment": analyze_employment(vacancies),
               "schedule": analyze_schedule(vacancies),
               "skills": extract_skills(vacancies)}
      return stats
  \<close>
  The data frame is built from the list of dictionaries and never read; it is left
  out. The seven analyses run in the order of the literal, and an exception of any of
  them is the exception of the whole call.
\<close>

record stats =
  total :: nat
  salary :: salary_result
  salary_by_experience :: "(pyval \<times> tier_stats) list"
  companies :: companies_stats
  experience :: counter
  employment :: counter
  schedule :: counter
  skills :: skills_stats

text \<open>The returned dictionary: \<open>No_listings\<close> is \<^verbatim>\<open>{"error": message}\<close>.\<close>

datatype analysis = No_listings string | Analysis stats

definition analyze_vacancies ::
  "(string \<Rightarrow> string) \<Rightarrow> (string \<Rightarrow> string) \<Rightarrow> listing list \<Rightarrow> exn + analysis" where
  "analyze_vacancies lower upper vacancies =
     (if vacancies = [] then Inr (No_listings msg_no_vacancies)
      else
        (case analyze_salaries vacancies of Inl e \<Rightarrow> Inl e | Inr r_salary \<Rightarrow>
        (case analyze_salary_by_experience vacancies of Inl e \<Rightarrow> Inl e | Inr r_by_exp \<Rightarrow>
        (case analyze_companies vacancies of Inl e \<Rightarrow> Inl e | Inr r_companies \<Rightarrow>
        (case analyze_experience vacancies of Inl e \<Rightarrow> Inl e | Inr r_experience \<Rightarrow>
        (case analyze_employment vacancies of Inl e \<Rightarrow> Inl e | Inr r_employment \<Rightarrow>
        (case analyze_schedule vacancies of Inl e \<Rightarrow> Inl e | Inr r_schedule \<Rightarrow>
        (case extract_skills lower upper vacancies of Inl e \<Rightarrow> Inl e | Inr r_skills \<Rightarrow>
          Inr (Analysis
            \<lparr>total = length vacancies, salary = r_salary, salary_by_experience = r_by_exp,
             companies = r_companies, experience = r_experience, employment = r_employment,
             schedule = r_schedule, skills = r_skills\<rparr>)))))))))"

section \<open>Notions of the specification\<close>

subsection \<open>The histogram\<close>

text \<open>
  The histogram as the specification words it: the ascending edges, the bucket labels
  in their order, and the bucket of a value as the index of the first edge that the value
  is strictly less than (the number of edges, that is the open-ended top bucket, when
  there is none).
\<close>

definition bucket_edges :: "rat list" where
  "bucket_edges = [100000, 150000, 200000, 250000, 300000, 400000]"

definition bucket_labels :: "string list" where
  "bucket_labels =
     [bucket_lt_100k, bucket_100_150k, bucket_150_200k, bucket_200_250k, bucket_250_300k,
      bucket_300_400k, bucket_400k_plus]"

definition first_edge_bucket :: "rat \<Rightarrow> nat" where
  "first_edge_bucket s = length (takeWhile (\<lambda>edge. \<not> s < edge) bucket_edges)"

definition in_bucket :: "nat \<Rightarrow> rat list \<Rightarrow> nat" where
  "in_bucket i ss = length (filter (\<lambda>s. first_edge_bucket s = i) ss)"

subsection \<open>Labels and ranking\<close>

text \<open>
  The labels that one listing adds to a category's counter, in the order in which the
  loop body counts them: at most one for the four categorical analyses, one per
  matching vocabulary entry for the skills. A listing on which the body raises adds
  none. \<open>labels_of\<close> is the sequence of the labels counted over the whole input.
\<close>

definition company_labels :: "listing \<Rightarrow> pyval list" where
  "company_labels v = [employer_name v]"

definition experience_labels :: "listing \<Rightarrow> pyval list" where
  "experience_labels v = (case experience_name v of Inl e \<Rightarrow> [] | Inr exp_name \<Rightarrow> [exp_name])"

definition employment_labels :: "listing \<Rightarrow> pyval list" where
  "employment_labels v =
     (case employment_name v of
        Inl e \<Rightarrow> []
      | Inr None \<Rightarrow> []
      | Inr (Some emp_name) \<Rightarrow> [emp_name])"

definition schedule_labels :: "listing \<Rightarrow> pyval list" where
  "schedule_labels v = (case schedule_name v of None \<Rightarrow> [] | Some name \<Rightarrow> [name])"

definition skill_labels ::
  "(string \<Rightarrow> string) \<Rightarrow> (string \<Rightarrow> string) \<Rightarrow> listing \<Rightarrow> pyval list" where
  "skill_labels lower upper v =
     (let snippet = dict_get v ''snippet'' PNone in
      if truthy snippet \<and> isinstance_dict snippet then
        (case snippet_text lower (dict_items snippet) of
           Inl e \<Rightarrow> []
         | Inr text \<Rightarrow>
             map (\<lambda>skill. PStr (upper skill))
               (filter (\<lambda>skill. str_contains text (lower skill)) tech_skills))
      else [])"

definition labels_of :: "(listing \<Rightarrow> pyval list) \<Rightarrow> listing list \<Rightarrow> pyval list" where
  "labels_of f vacancies = concat (map f vacancies)"

text \<open>The position at which a label is first met in a sequence of labels.\<close>

fun first_index :: "pyval list \<Rightarrow> pyval \<Rightarrow> nat" where
  "first_index [] key = 0"
| "first_index (x # xs) key = (if x = key then 0 else Suc (first_index xs key))"

text \<open>
  A ranked output: of any two entries the earlier one has the greater count, or the
  same count and a label met earlier in the sequence of labels.
\<close>

definition ranks_before :: "pyval list \<Rightarrow> pyval \<times> nat \<Rightarrow> pyval \<times> nat \<Rightarrow> bool" where
  "ranks_before labels a b =
     (snd b < snd a \<or> (snd a = snd b \<and> first_index labels (fst a) < first_index labels (fst b)))"

definition ranked :: "pyval list \<Rightarrow> counter \<Rightarrow> bool" where
  "ranked labels out = sorted_wrt (ranks_before labels) out"

text \<open>
  A field value that the employment and schedule analyses count: a non-empty
  dictionary or a non-empty string. \<^verbatim>\<open>None\<close> (the field is absent) is not one.
\<close>

definition resolvable :: "pyval \<Rightarrow> bool" where
  "resolvable x = (truthy x \<and> (isinstance_dict x \<or> isinstance_str x))"

subsection \<open>Experience codes\<close>

text \<open>
  A listing states the experience code \<open>code\<close>: its experience field is a non-empty
  object whose \<^verbatim>\<open>id\<close> is that string, or that non-empty string itself. (An object
  without an \<^verbatim>\<open>id\<close> states the unspecified label as its code, by the default of the
  lookup.)
\<close>

definition has_experience_code :: "listing \<Rightarrow> string \<Rightarrow> bool" where
  "has_experience_code v code =
     (case dict_get v ''experience'' PNone of
        PDict d \<Rightarrow> d \<noteq> [] \<and> dict_get d ''id'' (PStr unspecified) = PStr code
      | PStr s \<Rightarrow> s \<noteq> [] \<and> s = code
      | _ \<Rightarrow> False)"

text \<open>The code-to-tier table as the specification has it: four codes, the rest unspecified.\<close>

definition known_code :: "string \<Rightarrow> bool" where
  "known_code code =
     (code = ''noExperience'' \<or> code = ''between1And3'' \<or> code = ''between3And6''
      \<or> code = ''moreThan6'')"

definition tier_of_code :: "string \<Rightarrow> string" where
  "tier_of_code code =
     (if code = ''noExperience'' then tier_none
      else if code = ''between1And3'' then tier_1_3
      else if code = ''between3And6'' then tier_3_6
      else if code = ''moreThan6'' then tier_6_plus
      else unspecified)"

subsection \<open>Salary objects and samples\<close>

text \<open>
  A listing carries a salary object with the bounds \<open>f\<close> and \<open>t\<close> (an integer, or
  \<open>None\<close> for a bound that is \<^verbatim>\<open>null\<close> or missing) in the currency \<open>c\<close>: its
  salary field is a non-empty dictionary with these entries, an absent currency
  reading as the baseline \<^verbatim>\<open>RUR\<close>.
\<close>

fun bound_val :: "int option \<Rightarrow> pyval" where
  "bound_val None = PNone"
| "bound_val (Some n) = PInt n"

definition has_salary :: "listing \<Rightarrow> int option \<Rightarrow> int option \<Rightarrow> string \<Rightarrow> bool" where
  "has_salary v f t c =
     (case dict_get v ''salary'' PNone of
        PDict sd \<Rightarrow>
          sd \<noteq> [] \<and> dict_get sd ''from'' PNone = bound_val f
          \<and> dict_get sd ''to'' PNone = bound_val t
          \<and> dict_get sd ''currency'' (PStr ''RUR'') = PStr c
      | _ \<Rightarrow> False)"


text \<open>
  The fixed rates of the two recognised foreign currencies; every other currency code
  passes through, which is the rate 1.
\<close>

definition rate_of :: "string \<Rightarrow> int" where
  "rate_of c = (if c = ''USD'' then 90 else if c = ''EUR'' then 100 else 1)"

definition converted :: "string \<Rightarrow> int option \<Rightarrow> int option" where
  "converted c x = map_option (\<lambda>n. n * rate_of c) x"

text \<open>
  The representative value as the specification words it: the average of the two
  bounds when both are present, otherwise the bound that is present, and none when
  neither is.
\<close>

fun stated_value :: "int option \<Rightarrow> int option \<Rightarrow> rat option" where
  "stated_value (Some a) (Some b) = Some ((of_int a + of_int b) / 2)"
| "stated_value (Some a) None = Some (of_int a)"
| "stated_value None (Some b) = Some (of_int b)"
| "stated_value None None = None"

text \<open>A bound of 0 read as an absent bound.\<close>

fun nonzero :: "int option \<Rightarrow> int option" where
  "nonzero None = None"
| "nonzero (Some n) = (if n = 0 then None else Some n)"

fun bound_list :: "int option \<Rightarrow> int list" where
  "bound_list None = []"
| "bound_list (Some n) = [n]"


text \<open>
  The overall sample: the list \<^verbatim>\<open>salaries\<close> of \<^verbatim>\<open>analyze_salaries\<close> when its loop
  ends, one representative value per listing that has one. The per-tier samples: the
  groups when the loop of \<^verbatim>\<open>analyze_salary_by_experience\<close> ends, and the sample of
  one tier in such groups. The aggregate minimum: the \<^verbatim>\<open>min\<close> that
  \<^verbatim>\<open>analyze_salaries\<close> reports (none when it reports that no salary is stated).
\<close>

definition salary_sample :: "listing list \<Rightarrow> exn + rat list" where
  "salary_sample vacancies =
     (case for_each analyze_salaries_body salary_acc_init vacancies of
        Inl e \<Rightarrow> Inl e
      | Inr acc \<Rightarrow> Inr (salaries acc))"




section \<open>Example listings\<close>

text \<open>A listing with no field at all.\<close>

definition listing_empty :: listing where
  "listing_empty = []"

text \<open>
  Listings with a salary and nothing else: the range 100000 to 200000 in the baseline
  currency; a bound of 0 beside no other bound; both bounds \<^verbatim>\<open>null\<close>; from 1000 in
  RUR and in USD; from 100 in RUR.
\<close>

definition listing_100_200 :: listing where
  "listing_100_200 =
     [(''salary'', PDict [(''from'', PInt 100000), (''to'', PInt 200000),
                          (''currency'', PStr ''RUR'')])]"

definition listing_only_zero :: listing where
  "listing_only_zero =
     [(''salary'', PDict [(''from'', PInt 0), (''to'', PNone), (''currency'', PStr ''RUR'')])]"





text \<open>A listing with the range from 0 to 100000 and the experience code of the top tier.\<close>

definition listing_zero_from :: listing where
  "listing_zero_from =
     [(''salary'', PDict [(''from'', PInt 0), (''to'', PInt 100000), (''currency'', PStr ''RUR'')]),
      (''experience'', PDict [(''id'', PStr ''moreThan6'')])]"

text \<open>A listing whose salary is a string: \<^verbatim>\<open>analyze_salaries\<close> raises on it.\<close>

definition listing_bad_salary :: listing where
  "listing_bad_salary = [(''salary'', PStr ''by agreement'')]"

text \<open>A listing with an experience code that the table does not know.\<close>

definition listing_intern :: listing where
  "listing_intern = [(''experience'', PStr ''intern'')]"

text \<open>Listings whose requirement text names one skill, once.\<close>

definition listing_redis :: listing where
  "listing_redis =
     [(''snippet'', PDict [(''requirement'', PStr ''Experience with Redis''),
                           (''responsibility'', PNone)])]"

definition listing_python :: listing where
  "listing_python =
     [(''snippet'', PDict [(''requirement'', PStr ''Python developer''),
                           (''responsibility'', PStr ''Write services'')])]"

text \<open>
  Two listings that differ in every category; the first names its employer, schedule
  and experience in one shape (object or plain string), the second in the other.
\<close>

definition listing_beta :: listing where
  "listing_beta =
     [(''employer'', PDict [(''name'', PStr ''Beta'')]),
      (''experience'', PStr ''between1And3''),
      (''employment'', PDict [(''id'', PStr ''full''), (''name'', PStr ''Full time'')]),
      (''schedule'', PStr ''remote''),
      (''snippet'', PDict [(''requirement'', PStr ''SQL and Python''),
                           (''responsibility'', PNone)])]"

definition listing_alpha :: listing where
  "listing_alpha =
     [(''employer'', PStr ''Alpha''),
      (''experience'', PDict [(''id'', PStr ''noExperience'')]),
      (''employment'', PStr ''part''),
      (''schedule'', PDict [(''name'', PStr ''Office'')]),
      (''snippet'', PDict [(''requirement'', PStr ''Python''),
                           (''responsibility'', PStr ''sql queries'')])]"

section \<open>The histogram counts every value in one bucket\<close>

lemma bucket_labels_distinct: "distinct bucket_labels"
  by (simp add: bucket_labels_def bucket_lt_100k_def bucket_100_150k_def bucket_150_200k_def
      bucket_200_250k_def bucket_250_300k_def bucket_300_400k_def bucket_400k_plus_def)

lemma distribution_body_bucket:
  "distribution_body d s = dist_incr d (bucket_labels ! first_edge_bucket s)"
  by (simp add: distribution_body_def first_edge_bucket_def bucket_edges_def bucket_labels_def)

lemma first_edge_bucket_less: "first_edge_bucket s < 7"
  by (simp add: first_edge_bucket_def bucket_edges_def)

lemma dist_incr_absent:
  "key \<notin> fst ` set d \<Longrightarrow> map (\<lambda>(k, n). (k, if k = key then n + 1 else n)) d = d"
  by (induction d) auto

lemma dist_incr_map:
  "distinct (map fst d) \<Longrightarrow>
   dist_incr d key = map (\<lambda>(k, n). (k, if k = key then n + 1 else n)) d"
  by (induction d) (auto simp: dist_incr_absent)

lemma dist_incr_keys: "map fst (dist_incr d key) = map fst d"
  by (induction d) auto

lemma fold_dist_incr:
  "distinct (map fst d) \<Longrightarrow>
   fold (\<lambda>s d. dist_incr d (f s)) ss d =
     map (\<lambda>(k, n). (k, n + length (filter (\<lambda>s. f s = k) ss))) d"
proof (induction ss arbitrary: d)
  case Nil
  then show ?case by simp
next
  case (Cons s ss)
  have "distinct (map fst (dist_incr d (f s)))"
    using Cons.prems by (simp add: dist_incr_keys)
  then show ?case
    using Cons.IH [of "dist_incr d (f s)"] Cons.prems
    by (auto simp: dist_incr_map)
qed

lemma bucket_label_eq:
  "i < 7 \<Longrightarrow> (bucket_labels ! first_edge_bucket s = bucket_labels ! i) = (first_edge_bucket s = i)"
  using bucket_labels_distinct first_edge_bucket_less [of s]
  by (simp add: nth_eq_iff_index_eq bucket_labels_def)

lemma get_salary_distribution_counts:
  "get_salary_distribution ss =
     [(bucket_lt_100k, in_bucket 0 ss), (bucket_100_150k, in_bucket 1 ss),
      (bucket_150_200k, in_bucket 2 ss), (bucket_200_250k, in_bucket 3 ss),
      (bucket_250_300k, in_bucket 4 ss), (bucket_300_400k, in_bucket 5 ss),
      (bucket_400k_plus, in_bucket 6 ss)]"
proof -
  have d: "distinct (map fst dist_init)"
    using bucket_labels_distinct by (simp add: dist_init_def bucket_labels_def)
  have l: "bucket_lt_100k = bucket_labels ! 0" "bucket_100_150k = bucket_labels ! 1"
    "bucket_150_200k = bucket_labels ! 2" "bucket_200_250k = bucket_labels ! 3"
    "bucket_250_300k = bucket_labels ! 4" "bucket_300_400k = bucket_labels ! 5"
    "bucket_400k_plus = bucket_labels ! 6"
    by (simp_all add: bucket_labels_def)
  have "get_salary_distribution ss =
      map (\<lambda>(k, n). (k, n + length (filter (\<lambda>s. bucket_labels ! first_edge_bucket s = k) ss))) dist_init"
    unfolding get_salary_distribution_def distribution_body_bucket
    by (rule fold_dist_incr [OF d])
  also have "\<dots> = [(bucket_labels ! 0, in_bucket 0 ss), (bucket_labels ! 1, in_bucket 1 ss),
      (bucket_labels ! 2, in_bucket 2 ss), (bucket_labels ! 3, in_bucket 3 ss),
      (bucket_labels ! 4, in_bucket 4 ss), (bucket_labels ! 5, in_bucket 5 ss),
      (bucket_labels ! 6, in_bucket 6 ss)]"
    unfolding dist_init_def l by (simp add: bucket_label_eq in_bucket_def)
  finally show ?thesis by (simp add: l)
qed

lemma sum_buckets:
  "in_bucket 0 ss + in_bucket 1 ss + in_bucket 2 ss + in_bucket 3 ss + in_bucket 4 ss
     + in_bucket 5 ss + in_bucket 6 ss = length ss"
proof (induction ss)
  case Nil
  then show ?case by (simp add: in_bucket_def)
next
  case (Cons s ss)
  have "first_edge_bucket s \<in> {0, 1, 2, 3, 4, 5, 6}"
    using first_edge_bucket_less [of s] by auto
  then show ?case using Cons by (auto simp: in_bucket_def)
qed
section \<open>The overall statistics\<close>

lemma analyze_salaries_body_length:
  "analyze_salaries_body acc v = Inr acc' \<Longrightarrow>
   length (salaries acc') \<le> Suc (length (salaries acc))"
  by (auto simp: analyze_salaries_body_def Let_def append_value_def
      split: if_splits sum.splits option.splits)

lemma for_each_salaries_length:
  "for_each analyze_salaries_body acc vs = Inr acc' \<Longrightarrow>
   length (salaries acc') \<le> length (salaries acc) + length vs"
proof (induction vs arbitrary: acc)
  case Nil
  then show ?case by simp
next
  case (Cons v vs)
  then obtain acc1 where 1: "analyze_salaries_body acc v = Inr acc1"
    and 2: "for_each analyze_salaries_body acc1 vs = Inr acc'"
    by (auto split: sum.splits)
  show ?case
    using analyze_salaries_body_length [OF 1] Cons.IH [OF 2] by simp
qed

text \<open>
  Claim C2. Whenever \<^verbatim>\<open>analyze_salaries\<close> returns statistics (the input holds at
  least one listing with a usable salary bound, so it is not empty), the counts of the
  seven histogram buckets sum to the statistics' count, and the count is at most the
  number of listings of the input.
\<close>

theorem histogram_sums_to_count:
  assumes "analyze_salaries vs = Inr (Available st)"
  shows "sum_list (map snd (distribution st)) = count_stat st \<and> count_stat st \<le> length vs"
proof -
  from assms obtain acc where
    acc: "for_each analyze_salaries_body salary_acc_init vs = Inr acc"
    and st: "salary_summary acc = Available st"
    by (auto simp: analyze_salaries_def split: sum.splits)
  from st have c: "count_stat st = length (salaries acc)"
    and d: "distribution st = get_salary_distribution (salaries acc)"
    by (auto simp: salary_summary_def split: if_splits)
  have "sum_list (map snd (distribution st)) = length (salaries acc)"
    unfolding d get_salary_distribution_counts using sum_buckets [of "salaries acc"] by simp
  moreover have "length (salaries acc) \<le> length vs"
    using for_each_salaries_length [OF acc] by (simp add: salary_acc_init_def)
  ultimately show ?thesis by (simp add: c)
qed

theorem histogram_sums_to_count_witness:
  "\<exists>st. analyze_salaries [listing_100_200, listing_empty] = Inr (Available st)
     \<and> sum_list (map snd (distribution st)) = count_stat st
     \<and> count_stat st = 1
     \<and> count_stat st \<le> length [listing_100_200, listing_empty]"
proof -
  have "case analyze_salaries [listing_100_200, listing_empty] of
          Inr (Available st) \<Rightarrow> count_stat st = 1 | _ \<Rightarrow> False"
    by code_simp
  then obtain st where
    st: "analyze_salaries [listing_100_200, listing_empty] = Inr (Available st)"
    and c: "count_stat st = 1"
    by (auto split: sum.splits salary_result.splits)
  show ?thesis
    using histogram_sums_to_count [OF st] st c by blast
qed

text \<open>
  Claim C3. Every representative value is counted in exactly one bucket of the
  histogram: the histogram of a sample holds, for each bucket in order, the number of
  the sample's values whose first strictly greater edge (among 100000, 150000, 200000,
  250000, 300000, 400000) has that bucket's index, the top bucket taking the values
  that no edge exceeds. At the boundaries, 99999 is in the first bucket, 100000 in the
  second and 150000 in the third, whose lower edge is 150000. The listing with the
  range 100000 to 200000 in the baseline currency has the representative value 150000
  and is counted in that third bucket.
\<close>

theorem bucket_by_first_edge:
  "get_salary_distribution ss =
     [(bucket_lt_100k, in_bucket 0 ss), (bucket_100_150k, in_bucket 1 ss),
      (bucket_150_200k, in_bucket 2 ss), (bucket_200_250k, in_bucket 3 ss),
      (bucket_250_300k, in_bucket 4 ss), (bucket_300_400k, in_bucket 5 ss),
      (bucket_400k_plus, in_bucket 6 ss)]
   \<and> first_edge_bucket 99999 = 0
   \<and> first_edge_bucket 100000 = 1
   \<and> first_edge_bucket 149999 = 1
   \<and> first_edge_bucket 150000 = 2
   \<and> first_edge_bucket 199999 = 2
   \<and> first_edge_bucket 200000 = 3
   \<and> first_edge_bucket 250000 = 4
   \<and> first_edge_bucket 300000 = 5
   \<and> first_edge_bucket 399999 = 5
   \<and> first_edge_bucket 400000 = 6
   \<and> bucket_edges ! (first_edge_bucket 150000 - 1) = 150000
   \<and> salary_sample [listing_100_200] = Inr [150000]
   \<and> analyze_salaries [listing_100_200] =
       Inr (Available
         \<lparr>count_stat = 1, min_stat = 150000, max_stat = 150000, avg_stat = 150000,
          median_stat = 150000, from_avg = Some 100000, to_avg = Some 200000,
          distribution =
            [(bucket_lt_100k, 0), (bucket_100_150k, 0), (bucket_150_200k, 1),
             (bucket_200_250k, 0), (bucket_250_300k, 0), (bucket_300_400k, 0),
             (bucket_400k_plus, 0)],
          currencies = [(PStr ''RUR'', 1)]\<rparr>)"
proof -
  have edges: "first_edge_bucket 99999 = 0" "first_edge_bucket 100000 = 1"
    "first_edge_bucket 149999 = 1" "first_edge_bucket 150000 = 2"
    "first_edge_bucket 199999 = 2" "first_edge_bucket 200000 = 3"
    "first_edge_bucket 250000 = 4" "first_edge_bucket 300000 = 5"
    "first_edge_bucket 399999 = 5" "first_edge_bucket 400000 = 6"
    by (simp_all add: first_edge_bucket_def bucket_edges_def)
  have lower: "bucket_edges ! (first_edge_bucket 150000 - 1) = 150000"
    by (simp add: edges bucket_edges_def)
  have sample: "salary_sample [listing_100_200] = Inr [150000]"
    by code_simp
  have run: "analyze_salaries [listing_100_200] =
       Inr (Available
         \<lparr>count_stat = 1, min_stat = 150000, max_stat = 150000, avg_stat = 150000,
          median_stat = 150000, from_avg = Some 100000, to_avg = Some 200000,
          distribution =
            [(bucket_lt_100k, 0), (bucket_100_150k, 0), (bucket_150_200k, 1),
             (bucket_200_250k, 0), (bucket_250_300k, 0), (bucket_300_400k, 0),
             (bucket_400k_plus, 0)],
          currencies = [(PStr ''RUR'', 1)]\<rparr>)"
    by code_simp
  show ?thesis
    using get_salary_distribution_counts [of ss] edges lower sample run by simp
qed

section \<open>The report assembler\<close>

text \<open>
  Claim C9. On the empty list \<^verbatim>\<open>analyze_vacancies\<close> returns the explicit error
  summary and raises nothing. That test is the only validation of the function: on a
  non-empty list it never returns the error summary, what it returns is the record of
  the list's length and the seven analyses' results, and it raises only when one of the
  seven analyses raises.
\<close>

theorem empty_input_only_validation:
  "analyze_vacancies lower upper [] = Inr (No_listings msg_no_vacancies)
   \<and> (vs \<noteq> [] \<longrightarrow> analyze_vacancies lower upper vs = Inr r \<longrightarrow>
        (\<exists>st. r = Analysis st
           \<and> total st = length vs
           \<and> analyze_salaries vs = Inr (salary st)
           \<and> analyze_salary_by_experience vs = Inr (salary_by_experience st)
           \<and> analyze_companies vs = Inr (companies st)
           \<and> analyze_experience vs = Inr (experience st)
           \<and> analyze_employment vs = Inr (employment st)
           \<and> analyze_schedule vs = Inr (schedule st)
           \<and> extract_skills lower upper vs = Inr (skills st)))
   \<and> (vs \<noteq> [] \<longrightarrow> analyze_vacancies lower upper vs = Inl e \<longrightarrow>
        (analyze_salaries vs = Inl e
         \<or> analyze_salary_by_experience vs = Inl e
         \<or> analyze_companies vs = Inl e
         \<or> analyze_experience vs = Inl e
         \<or> analyze_employment vs = Inl e
         \<or> analyze_schedule vs = Inl e
         \<or> extract_skills lower upper vs = Inl e))"
proof (intro conjI impI)
  show "analyze_vacancies lower upper [] = Inr (No_listings msg_no_vacancies)"
    by (simp add: analyze_vacancies_def)
next
  assume "vs \<noteq> []" "analyze_vacancies lower upper vs = Inr r"
  then show "\<exists>st. r = Analysis st
           \<and> total st = length vs
           \<and> analyze_salaries vs = Inr (salary st)
           \<and> analyze_salary_by_experience vs = Inr (salary_by_experience st)
           \<and> analyze_companies vs = Inr (companies st)
           \<and> analyze_experience vs = Inr (experience st)
           \<and> analyze_employment vs = Inr (employment st)
           \<and> analyze_schedule vs = Inr (schedule st)
           \<and> extract_skills lower upper vs = Inr (skills st)"
    by (auto simp: analyze_vacancies_def split: sum.splits)
next
  assume "vs \<noteq> []" "analyze_vacancies lower upper vs = Inl e"
  then show "analyze_salaries vs = Inl e
         \<or> analyze_salary_by_experience vs = Inl e
         \<or> analyze_companies vs = Inl e
         \<or> analyze_experience vs = Inl e
         \<or> analyze_employment vs = Inl e
         \<or> analyze_schedule vs = Inl e
         \<or> extract_skills lower upper vs = Inl e"
    by (auto simp: analyze_vacancies_def split: sum.splits)
qed

theorem empty_input_only_validation_witness:
  "analyze_vacancies ascii_lower ascii_upper [] = Inr (No_listings msg_no_vacancies)
   \<and> [listing_100_200] \<noteq> []
   \<and> (\<exists>st. analyze_vacancies ascii_lower ascii_upper [listing_100_200] = Inr (Analysis st)
         \<and> total st = length [listing_100_200]
         \<and> analyze_salaries [listing_100_200] = Inr (salary st)
         \<and> analyze_schedule [listing_100_200] = Inr (schedule st))
   \<and> [listing_bad_salary] \<noteq> []
   \<and> analyze_vacancies ascii_lower ascii_upper [listing_bad_salary] = Inl Raised
   \<and> analyze_salaries [listing_bad_salary] = Inl Raised"
proof -
  have "case analyze_vacancies ascii_lower ascii_upper [listing_100_200] of
          Inr r \<Rightarrow> True | Inl e \<Rightarrow> False"
    by code_simp
  then obtain r where
    r: "analyze_vacancies ascii_lower ascii_upper [listing_100_200] = Inr r"
    by (auto split: sum.splits)
  have ne: "[listing_100_200] \<noteq> []" by simp
  have bad: "analyze_vacancies ascii_lower ascii_upper [listing_bad_salary] = Inl Raised"
    by code_simp
  have bad': "analyze_salaries [listing_bad_salary] = Inl Raised"
    by code_simp
  from empty_input_only_validation
    [of ascii_lower ascii_upper "[listing_100_200]" r Raised] r ne
  obtain st where "r = Analysis st" "total st = length [listing_100_200]"
    "analyze_salaries [listing_100_200] = Inr (salary st)"
    "analyze_schedule [listing_100_200] = Inr (schedule st)"
    by blast
  then show ?thesis
    using r bad bad' empty_input_only_validation [of ascii_lower ascii_upper "[]"]
    by auto
qed

section \<open>Skill counts\<close>

text \<open>
  Claim C5. The scan of one listing does not always raise a skill's count by at most
  one: the vocabulary holds the keywords mongodb, postgresql and redis twice, so a
  listing whose text mentions redis once gives REDIS the count 2. For a keyword that
  stands once in the vocabulary the count is one per listing: two listings that mention
  python once each give PYTHON the count 2.
\<close>

theorem duplicated_keyword_counts_twice:
  "extract_skills ascii_lower ascii_upper [listing_redis] =
     Inr \<lparr>skills_top_20 = [(PStr ''REDIS'', 2)], total_found = 1\<rparr>
   \<and> extract_skills ascii_lower ascii_upper [listing_python, listing_python] =
     Inr \<lparr>skills_top_20 = [(PStr ''PYTHON'', 2)], total_found = 1\<rparr>"
  by code_simp

section \<open>Counters keep first-seen order, most_common ranks stably\<close>

lemma counter_incr_keys:
  "map fst (counter_incr c k) = (if k \<in> set (map fst c) then map fst c else map fst c @ [k])"
  by (induction c) (force simp: image_iff)+



lemma first_index_append_in:
  "k \<in> set ls \<Longrightarrow> first_index (ls @ ys) k = first_index ls k"
  by (induction ls) auto

lemma first_index_append_notin:
  "k \<notin> set ls \<Longrightarrow> first_index (ls @ ys) k = length ls + first_index ys k"
  by (induction ls) auto

lemma first_index_less: "k \<in> set ls \<Longrightarrow> first_index ls k < length ls"
  by (induction ls) auto

lemma counter_keys_first_seen:
  "set (map fst (foldl counter_incr [] ls)) = set ls
   \<and> sorted_wrt (\<lambda>a b. first_index ls a < first_index ls b) (map fst (foldl counter_incr [] ls))"
proof (induction ls rule: rev_induct)
  case Nil
  then show ?case by simp
next
  case (snoc x ls)
  let ?c = "foldl counter_incr [] ls"
  have keys: "set (map fst ?c) = set ls"
    and srt: "sorted_wrt (\<lambda>a b. first_index ls a < first_index ls b) (map fst ?c)"
    using snoc by auto
  have srt': "sorted_wrt (\<lambda>a b. first_index (ls @ [x]) a < first_index (ls @ [x]) b) (map fst ?c)"
    by (rule sorted_wrt_mono_rel [OF _ srt]) (use keys in \<open>auto simp: first_index_append_in\<close>)
  show ?case
  proof (cases "x \<in> set ls")
    case True
    then show ?thesis using keys srt' by (auto simp: counter_incr_keys)
  next
    case False
    have "\<forall>a\<in>set ls. first_index (ls @ [x]) a < first_index (ls @ [x]) x"
      using False by (simp add: first_index_append_in first_index_append_notin first_index_less)
    moreover have "map fst (counter_incr ?c x) = map fst ?c @ [x]"
      using keys False by (simp add: counter_incr_keys)
    ultimately show ?thesis
      using keys srt' by (simp add: sorted_wrt_append)
  qed
qed

lemma insort_key_ranked:
  assumes "sorted_wrt (\<lambda>a b. f a < f b \<or> (f a = f b \<and> P a b)) ys"
    and "\<forall>y\<in>set ys. P x y"
  shows "sorted_wrt (\<lambda>a b. f a < f b \<or> (f a = f b \<and> P a b)) (insort_key f x ys)"
  using assms
proof (induction ys)
  case Nil
  then show ?case by simp
next
  case (Cons y ys)
  show ?case
  proof (cases "f x \<le> f y")
    case True
    then show ?thesis using Cons.prems by (auto simp: le_less) 
  next
    case False
    then show ?thesis using Cons by (auto simp: set_insort_key)
  qed
qed

lemma sort_key_ranked:
  fixes f :: "'a \<Rightarrow> int"
  assumes "sorted_wrt P xs"
  shows "sorted_wrt (\<lambda>a b. f a < f b \<or> (f a = f b \<and> P a b)) (sort_key f xs)"
  using assms
proof (induction xs)
  case Nil
  then show ?case by simp
next
  case (Cons x xs)
  then have "sorted_wrt (\<lambda>a b. f a < f b \<or> (f a = f b \<and> P a b)) (sort_key f xs)"
    and "\<forall>y\<in>set (sort_key f xs). P x y"
    by auto
  then show ?case
    by (simp add: insort_key_ranked)
qed




lemma most_common_ranked:
  "ranked ls (most_common (foldl counter_incr [] ls))"
proof -
  let ?c = "foldl counter_incr [] ls"
  have "sorted_wrt (\<lambda>a b. first_index ls (fst a) < first_index ls (fst b)) ?c"
    using counter_keys_first_seen [of ls] by (simp add: sorted_wrt_map)
  then have "sorted_wrt (\<lambda>a b. - int (snd a) < - int (snd b) \<or>
      (- int (snd a) = - int (snd b) \<and> first_index ls (fst a) < first_index ls (fst b)))
      (sort_key (\<lambda>kc. - int (snd kc)) ?c)"
    by (rule sort_key_ranked)
  then show ?thesis
    unfolding ranked_def most_common_def
    by (rule sorted_wrt_mono_rel [rotated]) (auto simp: ranks_before_def)
qed

lemma most_common_n_ranked:
  "ranked ls (most_common_n n (foldl counter_incr [] ls))"
  using most_common_ranked [of ls]
  unfolding ranked_def most_common_n_def by (rule sorted_wrt_take)

section \<open>What the counting loops compute\<close>

lemma for_each_counts:
  assumes step: "\<And>c v c'. body c v = Inr c' \<Longrightarrow> c' = foldl counter_incr c (f v) \<and> Q v"
    and run: "for_each body c vs = Inr c'"
  shows "c' = foldl counter_incr c (concat (map f vs)) \<and> (\<forall>v\<in>set vs. Q v)"
  using run
proof (induction vs arbitrary: c)
  case Nil
  then show ?case by simp
next
  case (Cons v vs)
  then obtain c1 where 1: "body c v = Inr c1" and 2: "for_each body c1 vs = Inr c'"
    by (auto split: sum.splits)
  show ?case
    using step [OF 1] Cons.IH [OF 2] by simp
qed

lemma companies_step:
  "analyze_companies_body c v = Inr c' \<Longrightarrow> c' = foldl counter_incr c (company_labels v) \<and> True"
  by (auto simp: analyze_companies_body_def company_labels_def counter_add_def split: if_splits)

lemma experience_step:
  "analyze_experience_body c v = Inr c' \<Longrightarrow> c' = foldl counter_incr c (experience_labels v) \<and> True"
  by (auto simp: analyze_experience_body_def experience_labels_def counter_add_def
      split: if_splits sum.splits)

lemma employment_step:
  "analyze_employment_body c v = Inr c' \<Longrightarrow>
   c' = foldl counter_incr c (employment_labels v)
   \<and> length (employment_labels v) = (if resolvable (dict_get v ''employment'' PNone) then 1 else 0)"
  by (auto simp: analyze_employment_body_def employment_labels_def counter_add_def
      employment_name_def resolvable_def Let_def
      split: if_splits sum.splits option.splits)

lemma schedule_step:
  "analyze_schedule_body c v = Inr c' \<Longrightarrow>
   c' = foldl counter_incr c (schedule_labels v)
   \<and> length (schedule_labels v) = (if resolvable (dict_get v ''schedule'' PNone) then 1 else 0)"
  by (auto simp: analyze_schedule_body_def schedule_labels_def counter_add_def
      schedule_name_def resolvable_def Let_def
      split: if_splits sum.splits option.splits)

lemma skill_loop:
  "for_each (skill_body lower upper text) c sk =
     Inr (foldl counter_incr c
       (map (\<lambda>skill. PStr (upper skill)) (filter (\<lambda>skill. str_contains text (lower skill)) sk)))"
  by (induction sk arbitrary: c) (auto simp: skill_body_def counter_add_def)

lemma skills_step:
  "extract_skills_body lower upper c v = Inr c' \<Longrightarrow>
   c' = foldl counter_incr c (skill_labels lower upper v) \<and> True"
  by (auto simp: extract_skills_body_def skill_labels_def skill_loop Let_def
      split: if_splits sum.splits)

lemma length_concat_indicator:
  "\<forall>v\<in>set vs. length (f v) = (if P v then 1 else 0) \<Longrightarrow>
   length (concat (map f vs)) = length (filter P vs)"
  by (induction vs) auto

section \<open>The categorical outputs\<close>

lemma analyze_companies_run:
  assumes "analyze_companies vs = Inr r"
  shows "r = \<lparr>unique = length (foldl counter_incr [] (labels_of company_labels vs)),
              top_20 = most_common_n 20 (foldl counter_incr [] (labels_of company_labels vs))\<rparr>"
proof -
  from assms obtain c where c: "for_each analyze_companies_body [] vs = Inr c"
    and r: "r = \<lparr>unique = length c, top_20 = most_common_n 20 c\<rparr>"
    by (auto simp: analyze_companies_def split: sum.splits)
  have "c = foldl counter_incr [] (concat (map company_labels vs)) \<and> (\<forall>v\<in>set vs. True)"
    by (rule for_each_counts [OF companies_step c])
  then show ?thesis using r by (simp add: labels_of_def)
qed

lemma analyze_experience_run:
  assumes "analyze_experience vs = Inr r"
  shows "r = most_common (foldl counter_incr [] (labels_of experience_labels vs))"
proof -
  from assms obtain c where c: "for_each analyze_experience_body [] vs = Inr c"
    and r: "r = most_common c"
    by (auto simp: analyze_experience_def split: sum.splits)
  have "c = foldl counter_incr [] (concat (map experience_labels vs)) \<and> (\<forall>v\<in>set vs. True)"
    by (rule for_each_counts [OF experience_step c])
  then show ?thesis using r by (simp add: labels_of_def)
qed

lemma analyze_employment_run:
  assumes "analyze_employment vs = Inr r"
  shows "r = most_common (foldl counter_incr [] (labels_of employment_labels vs))
    \<and> length (labels_of employment_labels vs) =
        length (filter (\<lambda>v. resolvable (dict_get v ''employment'' PNone)) vs)"
proof -
  from assms obtain c where c: "for_each analyze_employment_body [] vs = Inr c"
    and r: "r = most_common c"
    by (auto simp: analyze_employment_def split: sum.splits)
  have "c = foldl counter_incr [] (concat (map employment_labels vs))
      \<and> (\<forall>v\<in>set vs. length (employment_labels v) =
            (if resolvable (dict_get v ''employment'' PNone) then 1 else 0))"
    by (rule for_each_counts [OF employment_step c])
  then show ?thesis using r by (simp add: labels_of_def length_concat_indicator)
qed

lemma analyze_schedule_run:
  assumes "analyze_schedule vs = Inr r"
  shows "r = most_common (foldl counter_incr [] (labels_of schedule_labels vs))
    \<and> length (labels_of schedule_labels vs) =
        length (filter (\<lambda>v. resolvable (dict_get v ''schedule'' PNone)) vs)"
proof -
  from assms obtain c where c: "for_each analyze_schedule_body [] vs = Inr c"
    and r: "r = most_common c"
    by (auto simp: analyze_schedule_def split: sum.splits)
  have "c = foldl counter_incr [] (concat (map schedule_labels vs))
      \<and> (\<forall>v\<in>set vs. length (schedule_labels v) =
            (if resolvable (dict_get v ''schedule'' PNone) then 1 else 0))"
    by (rule for_each_counts [OF schedule_step c])
  then show ?thesis using r by (simp add: labels_of_def length_concat_indicator)
qed

lemma extract_skills_run:
  assumes "extract_skills lower upper vs = Inr r"
  shows "r = \<lparr>skills_top_20 =
                 most_common_n 20 (foldl counter_incr [] (labels_of (skill_labels lower upper) vs)),
              total_found = length (foldl counter_incr [] (labels_of (skill_labels lower upper) vs))\<rparr>"
proof -
  from assms obtain c where c: "for_each (extract_skills_body lower upper) [] vs = Inr c"
    and r: "r = \<lparr>skills_top_20 = most_common_n 20 c, total_found = length c\<rparr>"
    by (auto simp: extract_skills_def split: sum.splits)
  have "c = foldl counter_incr [] (concat (map (skill_labels lower upper) vs))
      \<and> (\<forall>v\<in>set vs. True)"
    by (rule for_each_counts [OF skills_step c])
  then show ?thesis using r by (simp add: labels_of_def)
qed

text \<open>
  Claim C8. Every ranked output (the employers' top 20, the experience, employment and
  schedule counts, the skills' top 20) is ordered by descending count, and of two
  entries with the same count the one whose label is met first in the input comes first:
  each output is sorted by the relation "greater count, or equal count and earlier first
  occurrence in the sequence of the labels counted".
\<close>

theorem ranking_is_stable:
  "(analyze_companies vs = Inr r_companies \<longrightarrow>
      ranked (labels_of company_labels vs) (top_20 r_companies))
   \<and> (analyze_experience vs = Inr r_experience \<longrightarrow>
      ranked (labels_of experience_labels vs) r_experience)
   \<and> (analyze_employment vs = Inr r_employment \<longrightarrow>
      ranked (labels_of employment_labels vs) r_employment)
   \<and> (analyze_schedule vs = Inr r_schedule \<longrightarrow>
      ranked (labels_of schedule_labels vs) r_schedule)
   \<and> (extract_skills lower upper vs = Inr r_skills \<longrightarrow>
      ranked (labels_of (skill_labels lower upper) vs) (skills_top_20 r_skills))"
proof (intro conjI impI)
  assume "analyze_companies vs = Inr r_companies"
  from analyze_companies_run [OF this]
  show "ranked (labels_of company_labels vs) (top_20 r_companies)"
    by (simp add: most_common_n_ranked)
next
  assume "analyze_experience vs = Inr r_experience"
  from analyze_experience_run [OF this]
  show "ranked (labels_of experience_labels vs) r_experience"
    by (simp add: most_common_ranked)
next
  assume "analyze_employment vs = Inr r_employment"
  from analyze_employment_run [OF this]
  show "ranked (labels_of employment_labels vs) r_employment"
    by (simp add: most_common_ranked)
next
  assume "analyze_schedule vs = Inr r_schedule"
  from analyze_schedule_run [OF this]
  show "ranked (labels_of schedule_labels vs) r_schedule"
    by (simp add: most_common_ranked)
next
  assume "extract_skills lower upper vs = Inr r_skills"
  from extract_skills_run [OF this]
  show "ranked (labels_of (skill_labels lower upper) vs) (skills_top_20 r_skills)"
    by (simp add: most_common_n_ranked)
qed

theorem ranking_is_stable_witness:
  "analyze_companies [listing_beta, listing_alpha] =
      Inr \<lparr>unique = 2, top_20 = [(PStr ''Beta'', 1), (PStr ''Alpha'', 1)]\<rparr>
   \<and> labels_of company_labels [listing_beta, listing_alpha] = [PStr ''Beta'', PStr ''Alpha'']
   \<and> ranked (labels_of company_labels [listing_beta, listing_alpha])
        [(PStr ''Beta'', 1), (PStr ''Alpha'', 1)]
   \<and> analyze_experience [listing_beta, listing_alpha] =
      Inr [(PStr tier_1_3, 1), (PStr tier_none, 1)]
   \<and> ranked (labels_of experience_labels [listing_beta, listing_alpha])
        [(PStr tier_1_3, 1), (PStr tier_none, 1)]
   \<and> analyze_employment [listing_beta, listing_alpha] =
      Inr [(PStr emp_full, 1), (PStr emp_part, 1)]
   \<and> ranked (labels_of employment_labels [listing_beta, listing_alpha])
        [(PStr emp_full, 1), (PStr emp_part, 1)]
   \<and> analyze_schedule [listing_beta, listing_alpha] =
      Inr [(PStr ''remote'', 1), (PStr ''Office'', 1)]
   \<and> ranked (labels_of schedule_labels [listing_beta, listing_alpha])
        [(PStr ''remote'', 1), (PStr ''Office'', 1)]
   \<and> extract_skills ascii_lower ascii_upper [listing_beta, listing_alpha] =
      Inr \<lparr>skills_top_20 = [(PStr ''PYTHON'', 2), (PStr ''SQL'', 2)], total_found = 2\<rparr>
   \<and> ranked (labels_of (skill_labels ascii_lower ascii_upper) [listing_beta, listing_alpha])
        [(PStr ''PYTHON'', 2), (PStr ''SQL'', 2)]
   \<and> analyze_companies [listing_beta, listing_alpha, listing_alpha] =
      Inr \<lparr>unique = 2, top_20 = [(PStr ''Alpha'', 2), (PStr ''Beta'', 1)]\<rparr>
   \<and> ranked (labels_of company_labels [listing_beta, listing_alpha, listing_alpha])
        [(PStr ''Alpha'', 2), (PStr ''Beta'', 1)]"
proof -
  have c: "analyze_companies [listing_beta, listing_alpha] =
      Inr \<lparr>unique = 2, top_20 = [(PStr ''Beta'', 1), (PStr ''Alpha'', 1)]\<rparr>"
    by code_simp
  have l: "labels_of company_labels [listing_beta, listing_alpha] = [PStr ''Beta'', PStr ''Alpha'']"
    by code_simp
  have e: "analyze_experience [listing_beta, listing_alpha] =
      Inr [(PStr tier_1_3, 1), (PStr tier_none, 1)]"
    by code_simp
  have m: "analyze_employment [listing_beta, listing_alpha] =
      Inr [(PStr emp_full, 1), (PStr emp_part, 1)]"
    by code_simp
  have s: "analyze_schedule [listing_beta, listing_alpha] =
      Inr [(PStr ''remote'', 1), (PStr ''Office'', 1)]"
    by code_simp
  have k: "extract_skills ascii_lower ascii_upper [listing_beta, listing_alpha] =
      Inr \<lparr>skills_top_20 = [(PStr ''PYTHON'', 2), (PStr ''SQL'', 2)], total_found = 2\<rparr>"
    by code_simp
  have c3: "analyze_companies [listing_beta, listing_alpha, listing_alpha] =
      Inr \<lparr>unique = 2, top_20 = [(PStr ''Alpha'', 2), (PStr ''Beta'', 1)]\<rparr>"
    by code_simp
  show ?thesis
    using ranking_is_stable [of "[listing_beta, listing_alpha]"
        "\<lparr>unique = 2, top_20 = [(PStr ''Beta'', 1), (PStr ''Alpha'', 1)]\<rparr>"
        "[(PStr tier_1_3, 1), (PStr tier_none, 1)]"
        "[(PStr emp_full, 1), (PStr emp_part, 1)]"
        "[(PStr ''remote'', 1), (PStr ''Office'', 1)]"
        ascii_lower ascii_upper
        "\<lparr>skills_top_20 = [(PStr ''PYTHON'', 2), (PStr ''SQL'', 2)], total_found = 2\<rparr>"]
      ranking_is_stable [of "[listing_beta, listing_alpha, listing_alpha]"
        "\<lparr>unique = 2, top_20 = [(PStr ''Alpha'', 2), (PStr ''Beta'', 1)]\<rparr>"]
      c l e m s k c3
    by simp
qed





section \<open>Experience tiers\<close>

lemma experience_id_code: "has_experience_code v code \<Longrightarrow> experience_id v = PStr code"
  by (auto simp: has_experience_code_def experience_id_def Let_def split: pyval.splits)

lemma experience_id_absent:
  "\<not> resolvable (dict_get v ''experience'' PNone) \<Longrightarrow> experience_id v = PStr unspecified"
  by (auto simp: experience_id_def resolvable_def Let_def)

lemma unspecified_unknown: "\<not> known_code unspecified"
  by (simp add: known_code_def unspecified_def)

lemma table_get_exp_map:
  "table_get exp_map (PStr code) dflt =
     Inr (if known_code code then PStr (tier_of_code code) else dflt)"
  by (simp add: table_get_def exp_map_def known_code_def tier_of_code_def)

text \<open>
  Claim C6, as amended. The experience field is read as an object with an
  \<^verbatim>\<open>id\<close> or as a bare string code. In the per-tier salary grouping the code
  resolves through the fixed table, and every unknown code and every field that is
  not resolvable (absent, for one) resolves to the unspecified tier. In the experience
  category counts a known code is counted under its tier's label and a field that is
  not resolvable under the unspecified label, but an unknown code is counted under
  the code itself.
\<close>

theorem experience_resolution:
  "(has_experience_code v code \<longrightarrow>
      experience_tier v = Inr (PStr (tier_of_code code))
      \<and> experience_name v = Inr (PStr (if known_code code then tier_of_code code else code))
      \<and> analyze_experience_body c v =
          Inr (counter_incr c (PStr (if known_code code then tier_of_code code else code))))
   \<and> (\<not> resolvable (dict_get v ''experience'' PNone) \<longrightarrow>
      experience_tier v = Inr (PStr unspecified)
      \<and> experience_name v = Inr (PStr unspecified)
      \<and> analyze_experience_body c v = Inr (counter_incr c (PStr unspecified)))
   \<and> tier_of_code ''noExperience'' = tier_none
   \<and> tier_of_code ''between1And3'' = tier_1_3
   \<and> tier_of_code ''between3And6'' = tier_3_6
   \<and> tier_of_code ''moreThan6'' = tier_6_plus
   \<and> (\<not> known_code code \<longrightarrow> tier_of_code code = unspecified)"
proof (intro conjI impI)
  assume h: "has_experience_code v code"
  show "experience_tier v = Inr (PStr (tier_of_code code))"
    by (simp add: experience_tier_def experience_id_code [OF h] table_get_exp_map
        tier_of_code_def known_code_def)
  show n: "experience_name v = Inr (PStr (if known_code code then tier_of_code code else code))"
    by (simp add: experience_name_def experience_id_code [OF h] table_get_exp_map)
  show "analyze_experience_body c v =
          Inr (counter_incr c (PStr (if known_code code then tier_of_code code else code)))"
    by (simp add: analyze_experience_body_def n counter_add_def)
next
  assume a: "\<not> resolvable (dict_get v ''experience'' PNone)"
  show "experience_tier v = Inr (PStr unspecified)"
    by (simp add: experience_tier_def experience_id_absent [OF a] table_get_exp_map
        unspecified_unknown)
  show n: "experience_name v = Inr (PStr unspecified)"
    by (simp add: experience_name_def experience_id_absent [OF a] table_get_exp_map
        unspecified_unknown)
  show "analyze_experience_body c v = Inr (counter_incr c (PStr unspecified))"
    by (simp add: analyze_experience_body_def n counter_add_def)
qed (simp_all add: tier_of_code_def known_code_def)

theorem experience_resolution_witness:
  "has_experience_code listing_alpha ''noExperience''
   \<and> experience_tier listing_alpha = Inr (PStr tier_none)
   \<and> experience_name listing_alpha = Inr (PStr tier_none)
   \<and> has_experience_code listing_intern ''intern''
   \<and> experience_tier listing_intern = Inr (PStr unspecified)
   \<and> experience_name listing_intern = Inr (PStr ''intern'')
   \<and> \<not> resolvable (dict_get listing_empty ''experience'' PNone)
   \<and> experience_tier listing_empty = Inr (PStr unspecified)
   \<and> experience_name listing_empty = Inr (PStr unspecified)
   \<and> \<not> known_code ''intern''
   \<and> tier_of_code ''intern'' = unspecified"
proof -
  have a: "has_experience_code listing_alpha ''noExperience''" by code_simp
  have i: "has_experience_code listing_intern ''intern''" by code_simp
  have e: "\<not> resolvable (dict_get listing_empty ''experience'' PNone)" by code_simp
  have k: "known_code ''noExperience''" "\<not> known_code ''intern''"
    by (simp_all add: known_code_def)
  show ?thesis
    using experience_resolution [of listing_alpha "''noExperience''" "[]"]
      experience_resolution [of listing_intern "''intern''" "[]"]
      experience_resolution [of listing_empty "''intern''" "[]"]
      a i e k
    by simp
qed

text \<open>
  Claim C6 as stated fails in the experience category counts: the unknown code
  "intern" is counted under the label "intern", not under the unspecified label,
  while the salary grouping puts the same listing in the unspecified tier.
\<close>

theorem unknown_code_passes_through:
  "analyze_experience [listing_intern] = Inr [(PStr ''intern'', 1)]
   \<and> PStr ''intern'' \<noteq> PStr unspecified
   \<and> tier_of_code ''intern'' = unspecified
   \<and> analyze_salary_by_experience
        [(''salary'', PDict [(''from'', PInt 50000)]) # listing_intern] =
      Inr [(PStr unspecified,
            \<lparr>tier_count = 1, tier_min = 50000, tier_max = 50000, tier_avg = 50000,
             tier_median = 50000\<rparr>)]"
  by code_simp

section \<open>What one listing adds to the salary samples\<close>

lemma num_bound_bound_val: "num_bound (bound_val x) = Inr x"
  by (cases x) (simp_all add: num_bound_def)

lemma range_value_convert:
  "range_value (convert (PStr c) f) (convert (PStr c) t) =
     stated_value (nonzero (converted c f)) (nonzero (converted c t))"
  by (cases f; cases t)
    (auto simp: range_value_def convert_def converted_def rate_of_def times_rate_def
      truthy_bound_def)

lemma append_bound_convert:
  "append_bound xs (convert (PStr c) x) = xs @ bound_list (nonzero (converted c x))"
  by (cases x)
    (auto simp: append_bound_def convert_def converted_def rate_of_def times_rate_def
      truthy_bound_def)

lemma analyze_salaries_body_salary:
  assumes "has_salary v f t c"
  shows "analyze_salaries_body acc v =
     Inr \<lparr>salaries = append_value (salaries acc)
             (stated_value (nonzero (converted c f)) (nonzero (converted c t))),
          salary_from_list = salary_from_list acc @ bound_list (nonzero (converted c f)),
          salary_to_list = salary_to_list acc @ bound_list (nonzero (converted c t)),
          currency_stats = counter_incr (currency_stats acc) (PStr c)\<rparr>"
  using assms
  by (auto simp: has_salary_def analyze_salaries_body_def Let_def counter_add_def
      num_bound_bound_val range_value_convert append_bound_convert
      split: pyval.splits)

lemma salary_by_experience_body_salary:
  assumes "has_salary v f t c" and "experience_tier v = Inr tier"
  shows "salary_by_experience_body g v =
     (case stated_value (nonzero (converted c f)) (nonzero (converted c t)) of
        None \<Rightarrow> Inr g
      | Some x \<Rightarrow> group_append g tier x)"
  using assms
  by (auto simp: has_salary_def salary_by_experience_body_def Let_def
      num_bound_bound_val range_value_convert
      split: pyval.splits)




text \<open>
  The groups keep their five keys through the loop of
  \<^verbatim>\<open>analyze_salary_by_experience\<close>, so what is stated below about groups with
  these keys holds at every iteration.
\<close>

lemma group_append_keys: "group_append g tier x = Inr g' \<Longrightarrow> map fst g' = map fst g"
  by (induction g arbitrary: g') (auto split: if_splits sum.splits)

lemma salary_by_experience_body_keys:
  "salary_by_experience_body g v = Inr g' \<Longrightarrow> map fst g' = map fst g"
  by (auto simp: salary_by_experience_body_def Let_def group_append_keys
      split: if_splits sum.splits option.splits)

lemma tier_samples_keys:
  "for_each salary_by_experience_body g vs = Inr g' \<Longrightarrow> map fst g' = map fst g"
proof (induction vs arbitrary: g)
  case Nil
  then show ?case by simp
next
  case (Cons v vs)
  then obtain g1 where 1: "salary_by_experience_body g v = Inr g1"
    and 2: "for_each salary_by_experience_body g1 vs = Inr g'"
    by (auto split: sum.splits)
  show ?case
    using salary_by_experience_body_keys [OF 1] Cons.IH [OF 2] by simp
qed




text \<open>
  Claim C10. A salary bound of exactly 0 is treated as absent, in both salary
  functions. For every listing carrying a salary object: a bound of 0 is not appended
  to the sample of the from-values (respectively of the to-values) that the means are
  taken of; when the only stated bounds are 0 the listing adds no representative
  value, to the overall sample or to its tier's; and when one bound is 0 and the
  other is not, the representative value is the other bound (converted), not the
  average of the two.
\<close>

theorem zero_bound_is_absent:
  assumes "has_salary v f t c"
  shows "(\<exists>acc'. analyze_salaries_body acc v = Inr acc'
       \<and> (f = Some 0 \<longrightarrow> salary_from_list acc' = salary_from_list acc)
       \<and> (t = Some 0 \<longrightarrow> salary_to_list acc' = salary_to_list acc)
       \<and> ((f = Some 0 \<and> t = None) \<or> (f = None \<and> t = Some 0) \<or> (f = Some 0 \<and> t = Some 0) \<longrightarrow>
            salaries acc' = salaries acc)
       \<and> (\<forall>b. f = Some 0 \<and> t = Some b \<and> b \<noteq> 0 \<longrightarrow>
            salaries acc' = salaries acc @ [of_int (b * rate_of c)])
       \<and> (\<forall>a. f = Some a \<and> a \<noteq> 0 \<and> t = Some 0 \<longrightarrow>
            salaries acc' = salaries acc @ [of_int (a * rate_of c)]))
   \<and> (experience_tier v = Inr tier \<longrightarrow>
        ((f = Some 0 \<and> t = None) \<or> (f = None \<and> t = Some 0) \<or> (f = Some 0 \<and> t = Some 0) \<longrightarrow>
            salary_by_experience_body g v = Inr g)
       \<and> (\<forall>b. f = Some 0 \<and> t = Some b \<and> b \<noteq> 0 \<longrightarrow>
            salary_by_experience_body g v = group_append g tier (of_int (b * rate_of c)))
       \<and> (\<forall>a. f = Some a \<and> a \<noteq> 0 \<and> t = Some 0 \<longrightarrow>
            salary_by_experience_body g v = group_append g tier (of_int (a * rate_of c))))"
proof -
  have r: "rate_of c \<noteq> 0" by (simp add: rate_of_def)
  show ?thesis
    using r
    by (auto simp: analyze_salaries_body_salary [OF assms]
        salary_by_experience_body_salary [OF assms] converted_def append_value_def)
qed

theorem zero_bound_is_absent_witness:
  "has_salary listing_zero_from (Some 0) (Some 100000) ''RUR''
   \<and> experience_tier listing_zero_from = Inr (PStr tier_6_plus)
   \<and> (\<exists>acc'. analyze_salaries_body salary_acc_init listing_zero_from = Inr acc'
         \<and> salary_from_list acc' = salary_from_list salary_acc_init
         \<and> salaries acc' = salaries salary_acc_init @ [of_int (100000 * rate_of ''RUR'')])
   \<and> salary_by_experience_body salary_by_exp_init listing_zero_from =
       group_append salary_by_exp_init (PStr tier_6_plus) (of_int (100000 * rate_of ''RUR''))
   \<and> has_salary listing_only_zero (Some 0) None ''RUR''
   \<and> experience_tier listing_only_zero = Inr (PStr unspecified)
   \<and> (\<exists>acc'. analyze_salaries_body salary_acc_init listing_only_zero = Inr acc'
         \<and> salary_from_list acc' = salary_from_list salary_acc_init
         \<and> salaries acc' = salaries salary_acc_init)
   \<and> salary_by_experience_body salary_by_exp_init listing_only_zero = Inr salary_by_exp_init"
proof -
  have h: "has_salary listing_zero_from (Some 0) (Some 100000) ''RUR''" by code_simp
  have e: "experience_tier listing_zero_from = Inr (PStr tier_6_plus)" by code_simp
  have h0: "has_salary listing_only_zero (Some 0) None ''RUR''" by code_simp
  have e0: "experience_tier listing_only_zero = Inr (PStr unspecified)" by code_simp
  show ?thesis
    using zero_bound_is_absent [OF h, of salary_acc_init "PStr tier_6_plus" salary_by_exp_init]
      zero_bound_is_absent [OF h0, of salary_acc_init "PStr unspecified" salary_by_exp_init]
      h e h0 e0
    by auto
qed

section \<open>Currency conversion\<close>










end
